theory Spec2Isabelle
  imports Complex_Main
begin

section \<open>Exceptions as values\<close>

text \<open>
  Every Python exception that the two scripts can meet is a value of \<open>error\<close>; a
  computation that may raise returns \<open>error + 'a\<close> with \<open>Inl\<close> for the exception.
  An exception is identified by the class an \<^verbatim>\<open>except\<close> clause would match it against.
  \<open>ShapeError\<close> is the shape-mismatch failure of the Dice module, \<open>OtherError\<close> stands
  for every exception of another class (a missing file, a fault inside the model, ...).
\<close>

datatype error =
    AssertionError string
  | RuntimeError
  | IndexError
  | ValueError
  | TypeError
  | AttributeError
  | StopIteration
  | ZeroDivisionError
  | ShapeError
  | OtherError string

definition bind_err :: "error + 'a \<Rightarrow> ('a \<Rightarrow> error + 'b) \<Rightarrow> error + 'b" where
  "bind_err m f = (case m of Inl e \<Rightarrow> Inl e | Inr x \<Rightarrow> f x)"

section \<open>Tensors\<close>

text \<open>
  A tensor is its shape and its entries in row-major order. Floating-point entries are
  modelled as reals: rounding, overflow and NaN are outside the model. Entry
  \<open>(b, c, p)\<close> of a tensor of shape \<open>B # C # rest\<close> with \<open>P = prod_list rest\<close> is
  \<open>data ! ((b * C + c) * P + p)\<close>.
\<close>

record 'a tensor =
  shape :: "nat list"
  data :: "'a list"

definition tmap :: "('a \<Rightarrow> 'b) \<Rightarrow> 'a tensor \<Rightarrow> 'b tensor" where
  "tmap f t = \<lparr>shape = shape t, data = map f (data t)\<rparr>"

definition wf_tensor :: "'a tensor \<Rightarrow> bool" where
  \<comment> \<open>the entries fill the shape\<close>
  "wf_tensor t = (length (data t) = prod_list (shape t))"

definition chunks :: "nat \<Rightarrow> nat \<Rightarrow> 'a list \<Rightarrow> 'a list list" where
  \<comment> \<open>the first \<open>n\<close> consecutive pieces of length \<open>k\<close>\<close>
  "chunks n k xs = map (\<lambda>i. take k (drop (i * k) xs)) [0..<n]"

definition mean :: "real list \<Rightarrow> real" where
  \<comment> \<open>\<^verbatim>\<open>.mean()\<close>; of no entries it is NaN in torch and 0 here\<close>
  "mean xs = sum_list xs / real (length xs)"

definition to_float :: "int tensor \<Rightarrow> real tensor" where
  \<comment> \<open>\<^verbatim>\<open>.float()\<close> of an integer tensor\<close>
  "to_float t = tmap real_of_int t"

definition tensor_min :: "int tensor \<Rightarrow> error + int" where
  \<comment> \<open>\<^verbatim>\<open>t.min()\<close>: raises on a tensor with no entry\<close>
  "tensor_min t = (case data t of [] \<Rightarrow> Inl RuntimeError | x # xs \<Rightarrow> Inr (fold min xs x))"

definition tensor_max :: "int tensor \<Rightarrow> error + int" where
  "tensor_max t = (case data t of [] \<Rightarrow> Inl RuntimeError | x # xs \<Rightarrow> Inr (fold max xs x))"

definition squeeze_1 :: "'a tensor \<Rightarrow> error + 'a tensor" where
  \<comment> \<open>\<^verbatim>\<open>t.squeeze(1)\<close>: drops dimension 1 when its size is 1\<close>
  "squeeze_1 t =
     (case shape t of
        b # c # rest \<Rightarrow> Inr (if c = 1 then \<lparr>shape = b # rest, data = data t\<rparr> else t)
      | _ \<Rightarrow> Inl IndexError)"

definition sigmoid :: "real \<Rightarrow> real" where
  "sigmoid x = 1 / (1 + exp (- x))"

definition F_sigmoid :: "real tensor \<Rightarrow> real tensor" where
  "F_sigmoid t = tmap sigmoid t"

definition greater_than :: "real tensor \<Rightarrow> real \<Rightarrow> real tensor" where
  \<comment> \<open>\<^verbatim>\<open>(t > c).float()\<close>\<close>
  "greater_than t c = tmap (\<lambda>x. if x > c then 1 else 0) t"

definition F_softmax_1 :: "real tensor \<Rightarrow> error + real tensor" where
  \<comment> \<open>\<^verbatim>\<open>F.softmax(t, dim=1)\<close>\<close>
  "F_softmax_1 t =
     (case shape t of
        b # c # rest \<Rightarrow>
          (let P = prod_list rest in
           Inr \<lparr>shape = shape t,
                data = concat (map (\<lambda>i. concat (map (\<lambda>j. map (\<lambda>p.
                         exp (data t ! ((i * c + j) * P + p)) /
                         sum_list (map (\<lambda>k. exp (data t ! ((i * c + k) * P + p))) [0..<c]))
                       [0..<P]) [0..<c])) [0..<b])\<rparr>)
      | _ \<Rightarrow> Inl IndexError)"

fun argmax_from :: "real list \<Rightarrow> nat \<Rightarrow> nat \<Rightarrow> real \<Rightarrow> nat" where
  \<comment> \<open>index of the first maximal entry, given the best index and value so far\<close>
  "argmax_from [] i best v = best"
| "argmax_from (x # xs) i best v =
     (if x > v then argmax_from xs (Suc i) i x else argmax_from xs (Suc i) best v)"

definition argmax_list :: "real list \<Rightarrow> nat" where
  "argmax_list xs = (case xs of [] \<Rightarrow> 0 | x # rest \<Rightarrow> argmax_from rest 1 0 x)"

definition argmax_1 :: "real tensor \<Rightarrow> error + int tensor" where
  \<comment> \<open>\<^verbatim>\<open>t.argmax(dim=1)\<close>: the first maximal index along dimension 1\<close>
  "argmax_1 t =
     (case shape t of
        b # c # rest \<Rightarrow>
          if c = 0 then Inl IndexError
          else
            (let P = prod_list rest in
             Inr \<lparr>shape = b # rest,
                  data = concat (map (\<lambda>i. map (\<lambda>p.
                           int (argmax_list (map (\<lambda>k. data t ! ((i * c + k) * P + p)) [0..<c])))
                         [0..<P]) [0..<b])\<rparr>)
      | _ \<Rightarrow> Inl IndexError)"

definition F_one_hot :: "int tensor \<Rightarrow> int \<Rightarrow> error + int tensor" where
  \<comment> \<open>\<^verbatim>\<open>F.one_hot(t, num_classes)\<close>: a new last dimension; class values must be
      non-negative and smaller than \<open>num_classes\<close>\<close>
  "F_one_hot t num_classes =
     (if num_classes \<le> 0 then Inl RuntimeError
      else if \<exists>l \<in> set (data t). l < 0 \<or> l \<ge> num_classes then Inl RuntimeError
      else Inr \<lparr>shape = shape t @ [nat num_classes],
                data = concat (map (\<lambda>l. map (\<lambda>c. if l = int c then 1 else 0)
                                          [0..<nat num_classes]) (data t))\<rparr>)"

definition permute_0_3_1_2 :: "'a tensor \<Rightarrow> error + 'a tensor" where
  \<comment> \<open>\<^verbatim>\<open>t.permute(0, 3, 1, 2)\<close>: entry \<open>(b, c, h, w)\<close> of the result is entry
      \<open>(b, h, w, c)\<close> of \<open>t\<close>\<close>
  "permute_0_3_1_2 t =
     (case shape t of
        [b, h, w, c] \<Rightarrow>
          Inr \<lparr>shape = [b, c, h, w],
               data = concat (map (\<lambda>i. concat (map (\<lambda>k. concat (map (\<lambda>y. map (\<lambda>x.
                        data t ! (((i * h + y) * w + x) * c + k))
                      [0..<w]) [0..<h])) [0..<c])) [0..<b])\<rparr>
      | _ \<Rightarrow> Inl RuntimeError)"

definition slice_1_from_1 :: "'a tensor \<Rightarrow> error + 'a tensor" where
  \<comment> \<open>\<^verbatim>\<open>t[:, 1:]\<close>: all but index 0 of dimension 1\<close>
  "slice_1_from_1 t =
     (case shape t of
        b # c # rest \<Rightarrow>
          (let P = prod_list rest in
           Inr \<lparr>shape = b # (c - 1) # rest,
                data = concat (map (\<lambda>i. take ((c - 1) * P) (drop ((i * c + 1) * P) (data t)))
                                   [0..<b])\<rparr>)
      | _ \<Rightarrow> Inl IndexError)"

subsection \<open>The two loss criteria\<close>

definition BCEWithLogitsLoss :: "real tensor \<Rightarrow> real tensor \<Rightarrow> error + real" where
  \<comment> \<open>mean over the entries of \<open>- (z * ln (sigmoid x) + (1 - z) * ln (1 - sigmoid x))\<close>,
      which is \<open>(1 - z) * x + ln (1 + exp (- x))\<close>; the sizes must agree\<close>
  "BCEWithLogitsLoss input target =
     (if shape input \<noteq> shape target then Inl ValueError
      else Inr (mean (map2 (\<lambda>x z. (1 - z) * x + ln (1 + exp (- x))) (data input) (data target))))"

definition ignore_index :: int where
  "ignore_index = - 100"

definition CrossEntropyLoss :: "real tensor \<Rightarrow> int tensor \<Rightarrow> error + real" where
  \<comment> \<open>input \<open>B # C # rest\<close>, target \<open>B # rest\<close> of class indices; the mean, over the
      targets that are not \<open>ignore_index\<close>, of \<open>ln (\<Sum>k. exp x\<^sub>k) - x\<^sub>l\<close>; a target outside
      \<open>[0, C)\<close> is an error\<close>
  "CrossEntropyLoss input target =
     (case shape input of
        b # c # rest \<Rightarrow>
          if shape target \<noteq> b # rest then Inl ValueError
          else if \<exists>l \<in> set (data target). l \<noteq> ignore_index \<and> (l < 0 \<or> l \<ge> int c)
            then Inl IndexError
          else
            (let P = prod_list rest in
             Inr (mean (concat (map (\<lambda>i. concat (map (\<lambda>p.
                    (let l = data target ! (i * P + p) in
                     if l = ignore_index then []
                     else [ln (sum_list (map (\<lambda>k. exp (data input ! ((i * c + k) * P + p))) [0..<c]))
                           - data input ! ((i * c + nat l) * P + p)]))
                  [0..<P])) [0..<b]))))
      | _ \<Rightarrow> Inl ValueError)"

section \<open>The Dice module\<close>

text \<open>
  Modelled from the spec: \<^verbatim>\<open>utils/dice_score.py\<close> (the functions \<^verbatim>\<open>dice_coeff\<close>,
  \<^verbatim>\<open>multiclass_dice_coeff\<close> and \<^verbatim>\<open>dice_loss\<close> that \<^verbatim>\<open>evaluate.py\<close> imports) is not among
  the sources. The definitions follow sections 4.1 to 4.3 of the specification: the
  overlap of one pair of entry lists, the binary coefficient over all entries or as the
  mean of the per-batch-item values, the multiclass coefficient as the mean over the
  class channels of the binary one, and the loss as one minus the coefficient with the
  batch reduced first. The default stability constant is the specification's 1e-6.
\<close>

definition default_epsilon :: real where
  "default_epsilon = 1 / 1000000"

definition dice_value :: "real list \<Rightarrow> real list \<Rightarrow> real \<Rightarrow> real" where
  "dice_value pred target epsilon =
     (2 * sum_list (map2 (*) pred target) + epsilon) /
     (sum_list pred + sum_list target + epsilon)"

definition batch_items :: "'a tensor \<Rightarrow> 'a list list" where
  \<comment> \<open>the entries of each item along the leading dimension\<close>
  "batch_items t =
     (case shape t of [] \<Rightarrow> [data t] | b # rest \<Rightarrow> chunks b (prod_list rest) (data t))"

definition dice_same_shape :: "real tensor \<Rightarrow> real tensor \<Rightarrow> bool \<Rightarrow> real \<Rightarrow> real" where
  "dice_same_shape input target reduce_batch_first epsilon =
     (if reduce_batch_first then dice_value (data input) (data target) epsilon
      else mean (map2 (\<lambda>p t. dice_value p t epsilon) (batch_items input) (batch_items target)))"

definition dice_coeff :: "real tensor \<Rightarrow> real tensor \<Rightarrow> bool \<Rightarrow> real \<Rightarrow> error + real" where
  "dice_coeff input target reduce_batch_first epsilon =
     (if shape input \<noteq> shape target then Inl ShapeError
      else Inr (dice_same_shape input target reduce_batch_first epsilon))"

definition channel :: "nat \<Rightarrow> 'a tensor \<Rightarrow> 'a tensor" where
  \<comment> \<open>class channel \<open>k\<close> (dimension 1) of a tensor of at least two dimensions\<close>
  "channel k t =
     (case shape t of
        b # c # rest \<Rightarrow>
          (let P = prod_list rest in
           \<lparr>shape = b # rest,
            data = concat (map (\<lambda>i. take P (drop ((i * c + k) * P) (data t))) [0..<b])\<rparr>)
      | _ \<Rightarrow> t)"

definition n_channels :: "'a tensor \<Rightarrow> nat" where
  "n_channels t = (case shape t of b # c # rest \<Rightarrow> c | _ \<Rightarrow> 0)"

definition multiclass_dice_coeff ::
  "real tensor \<Rightarrow> real tensor \<Rightarrow> bool \<Rightarrow> real \<Rightarrow> error + real" where
  "multiclass_dice_coeff input target reduce_batch_first epsilon =
     (if shape input \<noteq> shape target \<or> length (shape input) < 2 then Inl ShapeError
      else Inr (mean (map (\<lambda>k. dice_same_shape (channel k input) (channel k target)
                                  reduce_batch_first epsilon)
                          [0..<n_channels input])))"

definition dice_loss :: "real tensor \<Rightarrow> real tensor \<Rightarrow> bool \<Rightarrow> error + real" where
  "dice_loss input target multiclass =
     bind_err
       (if multiclass then multiclass_dice_coeff input target True default_epsilon
        else dice_coeff input target True default_epsilon)
       (\<lambda>d. Inr (1 - d))"

section \<open>The evaluation loop (evaluate.py)\<close>

text \<open>
  The model collaborator: its class count, its mode flag (\<^verbatim>\<open>net.training\<close>, set by
  \<^verbatim>\<open>net.train()\<close> and cleared by \<^verbatim>\<open>net.eval()\<close>) and its forward pass, which depends on
  the mode it runs in and may raise.
\<close>

record net =
  n_classes :: int
  training :: bool
  forward :: "bool \<Rightarrow> real tensor \<Rightarrow> error + real tensor"

text \<open>
  A batch is the mapping with the keys \<^verbatim>\<open>'image'\<close> and \<^verbatim>\<open>'mask'\<close>; the mask is
  held as the integer tensor that line 26 converts it to.
\<close>

record batch =
  image_b :: "real tensor"
  mask_b :: "int tensor"

definition net_eval :: "net \<Rightarrow> net" where
  "net_eval n = n\<lparr>training := False\<rparr>"

definition net_train :: "net \<Rightarrow> net" where
  "net_train n = n\<lparr>training := True\<rparr>"

definition call_net :: "net \<Rightarrow> real tensor \<Rightarrow> error + real tensor" where
  \<comment> \<open>\<^verbatim>\<open>net(image)\<close>\<close>
  "call_net n x = forward n (training n) x"

definition criterion_float :: "net \<Rightarrow> real tensor \<Rightarrow> real tensor \<Rightarrow> error + real" where
  \<comment> \<open>line 15 applied to a float target (line 32, where \<open>n_classes = 1\<close>)\<close>
  "criterion_float n input target = BCEWithLogitsLoss input target"

definition criterion_long :: "net \<Rightarrow> real tensor \<Rightarrow> int tensor \<Rightarrow> error + real" where
  \<comment> \<open>line 15 applied to a long target (line 36): the cross entropy when
      \<open>n_classes > 1\<close>; otherwise the binary criterion, which rejects the target for its
      size or, the sizes agreeing, for its integer type\<close>
  "criterion_long n input target =
     (if n_classes n > 1 then CrossEntropyLoss input target
      else if shape input \<noteq> shape target then Inl ValueError else Inl RuntimeError)"

definition one_hot_mask :: "int tensor \<Rightarrow> int \<Rightarrow> error + real tensor" where
  \<comment> \<open>\<^verbatim>\<open>F.one_hot(t, n).permute(0, 3, 1, 2).float()\<close> (lines 39, 53 and 54)\<close>
  "one_hot_mask t n =
     bind_err (F_one_hot t n) (\<lambda>h.
     bind_err (permute_0_3_1_2 h) (\<lambda>p.
     Inr (to_float p)))"

definition batch_loss :: "net \<Rightarrow> real tensor \<Rightarrow> int tensor \<Rightarrow> error + real" where
  \<comment> \<open>lines 31 to 42: the loss of one batch\<close>
  "batch_loss n mask_pred mask_true =
     (if n_classes n = 1 then
        bind_err (squeeze_1 mask_pred) (\<lambda>sq.
        bind_err (criterion_float n sq (to_float mask_true)) (\<lambda>loss.
        bind_err (dice_loss (F_sigmoid sq) (to_float mask_true) False) (\<lambda>dl.
        Inr (loss + dl))))
      else
        bind_err (criterion_long n mask_pred mask_true) (\<lambda>loss.
        bind_err (F_softmax_1 mask_pred) (\<lambda>sm.
        bind_err (one_hot_mask mask_true (n_classes n)) (\<lambda>oh.
        bind_err (dice_loss sm oh True) (\<lambda>dl.
        Inr (loss + dl))))))"

definition batch_dice :: "net \<Rightarrow> real tensor \<Rightarrow> int tensor \<Rightarrow> error + real" where
  \<comment> \<open>lines 45 to 56: the label-range assertion and the Dice score of one batch\<close>
  "batch_dice n mask_pred mask_true =
     (if n_classes n = 1 then
        bind_err (tensor_min mask_true) (\<lambda>lo.
        if \<not> lo \<ge> 0 then Inl (AssertionError ''True mask indices should be in [0, 1]'')
        else
        bind_err (tensor_max mask_true) (\<lambda>hi.
        if \<not> hi \<le> 1 then Inl (AssertionError ''True mask indices should be in [0, 1]'')
        else
        dice_coeff (greater_than (F_sigmoid mask_pred) (1 / 2)) (to_float mask_true)
          False default_epsilon))
      else
        bind_err (tensor_min mask_true) (\<lambda>lo.
        if \<not> lo \<ge> 0
        then Inl (AssertionError ''True mask indices should be in [0, n_classes['')
        else
        bind_err (tensor_max mask_true) (\<lambda>hi.
        if \<not> hi < n_classes n
        then Inl (AssertionError ''True mask indices should be in [0, n_classes['')
        else
        bind_err (one_hot_mask mask_true (n_classes n)) (\<lambda>true_1h.
        bind_err (argmax_1 mask_pred) (\<lambda>am.
        bind_err (one_hot_mask am (n_classes n)) (\<lambda>pred_1h.
        bind_err (slice_1_from_1 pred_1h) (\<lambda>p.
        bind_err (slice_1_from_1 true_1h) (\<lambda>t.
        multiclass_dice_coeff p t False default_epsilon))))))))"

definition evaluate_batch :: "net \<Rightarrow> batch \<Rightarrow> error + real \<times> real" where
  \<comment> \<open>the loop body, lines 22 to 56: the Dice score and the loss of one batch\<close>
  "evaluate_batch n b =
     bind_err (call_net n (image_b b)) (\<lambda>mask_pred.
     bind_err (batch_loss n mask_pred (mask_b b)) (\<lambda>loss.
     bind_err (batch_dice n mask_pred (mask_b b)) (\<lambda>d.
     Inr (d, loss))))"

fun evaluate_loop :: "net \<Rightarrow> batch list \<Rightarrow> real \<times> real \<Rightarrow> error + real \<times> real" where
  "evaluate_loop n [] acc = Inr acc"
| "evaluate_loop n (b # bs) (dice_score, loss_total) =
     (case evaluate_batch n b of
        Inl e \<Rightarrow> Inl e
      | Inr (d, loss) \<Rightarrow> evaluate_loop n bs (dice_score + d, loss_total + loss))"

definition py_div :: "real \<Rightarrow> nat \<Rightarrow> error + real" where
  \<comment> \<open>\<^verbatim>\<open>x / k\<close> of line 59 for a count \<open>k\<close>: a zero divisor raises (with no batch
      the sums are still the integer 0, and \<^verbatim>\<open>0 / 0\<close> is a ZeroDivisionError)\<close>
  "py_div x k = (if k = 0 then Inl ZeroDivisionError else Inr (x / real k))"

definition evaluate :: "net \<Rightarrow> batch list \<Rightarrow> net \<times> (error + real \<times> real)" where
  \<comment> \<open>the model as the call leaves it, and the pair returned or the exception raised;
      an exception in the loop skips line 58\<close>
  "evaluate n0 dataloader =
     (let n = net_eval n0;
          num_val_batches = length dataloader
      in case evaluate_loop n dataloader (0, 0) of
           Inl e \<Rightarrow> (n, Inl e)
         | Inr (dice_score, loss_total) \<Rightarrow>
             (let n' = net_train n in
              case py_div dice_score (max num_val_batches 1) of
                Inl e \<Rightarrow> (n', Inl e)
              | Inr score \<Rightarrow>
                  (case py_div loss_total (max num_val_batches 1) of
                     Inl e \<Rightarrow> (n', Inl e)
                   | Inr loss \<Rightarrow> (n', Inr (score, loss)))))"

section \<open>The command-line script (evaluate_dataset.py)\<close>

text \<open>
  A dataset is the list of the samples its \<^verbatim>\<open>__getitem__\<close> returns, each a mapping with
  the keys \<^verbatim>\<open>'image'\<close> and \<^verbatim>\<open>'mask'\<close>. A path is the list of its components.
\<close>

record sample =
  image_s :: "real tensor"
  mask_s :: "int tensor"

type_synonym dataset = "sample list"

type_synonym path = "string list"

record args =
  model_file :: string
  amp :: bool
  bilinear :: bool
  classes :: int
  default_flag :: bool

text \<open>
  The collaborators that are imported and not among the sources: the two dataset
  loaders of \<^verbatim>\<open>utils.data_loading\<close>, the construction of the network with its weights
  (lines 66 to 72), the permutation that \<^verbatim>\<open>random_split\<close> draws from the generator
  seeded with 0 (a permutation of \<open>[0..<n]\<close>), and the image operations of torch and
  torchvision. The script takes them as they are.
\<close>

record world =
  CarvanaDataset :: "path \<Rightarrow> path \<Rightarrow> real \<Rightarrow> error + dataset"
  BasicDataset :: "path \<Rightarrow> path \<Rightarrow> real \<Rightarrow> error + dataset"
  load_net :: "args \<Rightarrow> error + net"
  randperm :: "nat \<Rightarrow> nat list"
  interpolate :: "real tensor \<Rightarrow> nat \<times> nat \<Rightarrow> error + real tensor"
  make_grid :: "real tensor \<Rightarrow> nat \<Rightarrow> real tensor"
  str_tuple :: "real \<times> real \<Rightarrow> string"

datatype cell = Str string | Num real

datatype content = Csv "cell list list" | Png "real tensor"

text \<open>What the script can change: the lines printed, the directories and the files.\<close>

record sys =
  stdout :: "string list"
  dirs :: "path set"
  files :: "path \<rightharpoonup> content"

definition dir_img :: path where "dir_img = [''data'', ''imgs'']"
definition dir_mask :: path where "dir_mask = [''data'', ''masks'']"
definition dir_train_img :: path where "dir_train_img = [''data'', ''train'', ''imgs'']"
definition dir_train_mask :: path where "dir_train_mask = [''data'', ''train'', ''masks'']"
definition dir_val_img :: path where "dir_val_img = [''data'', ''val'', ''imgs'']"
definition dir_val_mask :: path where "dir_val_mask = [''data'', ''val'', ''masks'']"
definition dir_test_img :: path where "dir_test_img = [''data'', ''test'', ''imgs'']"
definition dir_test_mask :: path where "dir_test_mask = [''data'', ''test'', ''masks'']"
definition full_img_size :: "nat \<times> nat" where "full_img_size = (140, 175)"

definition img_scale :: real where "img_scale = 1 / 2"
definition batch_size :: nat where "batch_size = 32"

subsection \<open>Data loading\<close>

definition stack :: "'a tensor list \<Rightarrow> 'a tensor" where
  \<comment> \<open>the default collation of samples of one shape\<close>
  "stack ts = \<lparr>shape = length ts # (case ts of [] \<Rightarrow> [] | t # _ \<Rightarrow> shape t),
               data = concat (map data ts)\<rparr>"

definition default_collate :: "sample list \<Rightarrow> batch" where
  "default_collate items =
     \<lparr>image_b = stack (map image_s items), mask_b = stack (map mask_s items)\<rparr>"

definition DataLoader :: "dataset \<Rightarrow> nat \<Rightarrow> bool \<Rightarrow> batch list" where
  \<comment> \<open>\<^verbatim>\<open>DataLoader(ds, batch_size=k, shuffle=False, drop_last=d)\<close> as the list of its
      batches: consecutive pieces of \<open>k\<close> samples, the last shorter one kept unless
      \<open>drop_last\<close>\<close>
  "DataLoader ds k drop_last =
     map default_collate
       (chunks (if drop_last then length ds div k else (length ds + k - 1) div k) k ds)"

definition Subset :: "dataset \<Rightarrow> nat list \<Rightarrow> dataset" where
  "Subset ds indices = map (\<lambda>i. ds ! i) indices"

definition py_range :: "nat \<Rightarrow> nat \<Rightarrow> nat \<Rightarrow> error + nat list" where
  \<comment> \<open>\<^verbatim>\<open>range(start, stop, step)\<close> of non-negative arguments\<close>
  "py_range start stop step =
     (if step = 0 then Inl ValueError
      else Inr (map (\<lambda>i. start + i * step) [0..<(stop - start + step - 1) div step]))"

definition random_split :: "world \<Rightarrow> dataset \<Rightarrow> nat \<Rightarrow> nat \<Rightarrow> error + dataset \<times> dataset" where
  \<comment> \<open>\<^verbatim>\<open>random_split(ds, [n1, n2], generator)\<close>\<close>
  "random_split w ds n1 n2 =
     (if n1 + n2 \<noteq> length ds then Inl ValueError
      else (let perm = randperm w (length ds)
            in Inr (Subset ds (take n1 perm), Subset ds (drop n1 perm))))"

definition caught :: "error \<Rightarrow> bool" where
  \<comment> \<open>\<^verbatim>\<open>except (AssertionError, RuntimeError, IndexError)\<close>\<close>
  "caught e = (case e of AssertionError _ \<Rightarrow> True | RuntimeError \<Rightarrow> True
                        | IndexError \<Rightarrow> True | _ \<Rightarrow> False)"

definition load_or_fallback :: "world \<Rightarrow> path \<Rightarrow> path \<Rightarrow> real \<Rightarrow> error + dataset" where
  \<comment> \<open>the try statement of lines 80 to 83, 91 to 94, 96 to 99 and 101 to 104\<close>
  "load_or_fallback w imgs masks scale =
     (case CarvanaDataset w imgs masks scale of
        Inr ds \<Rightarrow> Inr ds
      | Inl e \<Rightarrow> if caught e then BasicDataset w imgs masks scale else Inl e)"

definition build_sets :: "world \<Rightarrow> args \<Rightarrow> error + dataset \<times> dataset \<times> dataset" where
  \<comment> \<open>lines 79 to 108; \<^verbatim>\<open>int(len(dataset) * 0.1)\<close> is \<open>length dataset div 10\<close>\<close>
  "build_sets w a =
     (if default_flag a then
        bind_err (load_or_fallback w dir_img dir_mask img_scale) (\<lambda>dataset.
        let n_val = length dataset div 10;
            n_train = length dataset - n_val
        in bind_err (random_split w dataset n_train n_val) (\<lambda>(train_set, val_set).
           let test_set = val_set in Inr (train_set, val_set, test_set)))
      else
        bind_err (load_or_fallback w dir_train_img dir_train_mask img_scale) (\<lambda>train_set.
        bind_err (load_or_fallback w dir_val_img dir_val_mask img_scale) (\<lambda>val_set.
        bind_err (load_or_fallback w dir_test_img dir_test_mask img_scale) (\<lambda>test_set.
        Inr (train_set, val_set, test_set)))))"

definition build_loaders ::
  "dataset \<times> dataset \<times> dataset \<Rightarrow> batch list \<times> batch list \<times> batch list" where
  \<comment> \<open>lines 111 to 114\<close>
  "build_loaders sets =
     (case sets of (train_set, val_set, test_set) \<Rightarrow>
        (DataLoader train_set batch_size False,
         DataLoader val_set batch_size True,
         DataLoader test_set batch_size True))"

definition run_evaluations ::
  "net \<Rightarrow> batch list \<times> batch list \<times> batch list \<Rightarrow>
   net \<times> (error + (real \<times> real) \<times> (real \<times> real) \<times> (real \<times> real))" where
  \<comment> \<open>lines 116 to 118: each call returns the pair of line 59 of evaluate.py\<close>
  "run_evaluations n loaders =
     (case loaders of (train_loader, val_loader, test_loader) \<Rightarrow>
        (case evaluate n train_loader of
           (n1, Inl e) \<Rightarrow> (n1, Inl e)
         | (n1, Inr train_score) \<Rightarrow>
        (case evaluate n1 val_loader of
           (n2, Inl e) \<Rightarrow> (n2, Inl e)
         | (n2, Inr val_score) \<Rightarrow>
        (case evaluate n2 test_loader of
           (n3, Inl e) \<Rightarrow> (n3, Inl e)
         | (n3, Inr test_score) \<Rightarrow> (n3, Inr (train_score, val_score, test_score))))))"

subsection \<open>Python's tuples\<close>

definition tuple_format :: "world \<Rightarrow> real \<times> real \<Rightarrow> string \<Rightarrow> error + string" where
  \<comment> \<open>\<^verbatim>\<open>format(t, spec)\<close> of a tuple: its \<^verbatim>\<open>__format__\<close> is that of \<^verbatim>\<open>object\<close>, which
      accepts the empty format specification only\<close>
  "tuple_format w t spec = (if spec = [] then Inr (str_tuple w t) else Inl TypeError)"

definition tuple_item :: "real \<times> real \<Rightarrow> error + real" where
  \<comment> \<open>\<^verbatim>\<open>t.item()\<close> of a tuple: a tuple has no such attribute\<close>
  "tuple_item t = Inl AttributeError"

subsection \<open>Qualitative results\<close>

definition unsqueeze_1 :: "'a tensor \<Rightarrow> error + 'a tensor" where
  \<comment> \<open>\<^verbatim>\<open>t.unsqueeze(1)\<close>\<close>
  "unsqueeze_1 t =
     (case shape t of [] \<Rightarrow> Inl IndexError
      | b # rest \<Rightarrow> Inr \<lparr>shape = b # 1 # rest, data = data t\<rparr>)"

definition save_image :: "real tensor \<Rightarrow> path \<Rightarrow> sys \<Rightarrow> sys \<times> (error + unit)" where
  \<comment> \<open>writes the file when its directory exists\<close>
  "save_image t p s =
     (if butlast p \<in> dirs s then (s\<lparr>files := (files s)(p \<mapsto> Png t)\<rparr>, Inr ())
      else (s, Inl (OtherError ''FileNotFoundError'')))"

definition grids ::
  "world \<Rightarrow> net \<Rightarrow> batch \<Rightarrow> error + real tensor \<times> real tensor \<times> real tensor" where
  \<comment> \<open>lines 37 to 46: the three image batches that are saved\<close>
  "grids w model b =
     (let images = image_b b in
      bind_err (unsqueeze_1 (mask_b b)) (\<lambda>tm.
      let true_masks = to_float tm in
      bind_err (call_net model images) (\<lambda>out.
      bind_err (argmax_1 out) (\<lambda>am.
      bind_err (unsqueeze_1 am) (\<lambda>um.
      let out_masks = to_float um;
          out_size = (snd full_img_size, fst full_img_size) in
      bind_err (interpolate w images out_size) (\<lambda>images'.
      bind_err (interpolate w true_masks out_size) (\<lambda>true_masks'.
      bind_err (interpolate w out_masks out_size) (\<lambda>out_masks'.
      Inr (images', true_masks', out_masks')))))))))"

definition qualitative_results ::
  "world \<Rightarrow> dataset \<Rightarrow> path \<Rightarrow> net \<Rightarrow> sys \<Rightarrow> sys \<times> (error + unit)" where
  \<comment> \<open>lines 30 to 51\<close>
  "qualitative_results w dataset p model s =
     (let len_dataset = length dataset in
      case py_range 0 len_dataset (len_dataset div 6) of
        Inl e \<Rightarrow> (s, Inl e)
      | Inr indices \<Rightarrow>
          (let subset = Subset dataset indices;
               row_n = len_dataset div 6 + 1;
               dataset_loader = DataLoader subset row_n False
           in case dataset_loader of
                [] \<Rightarrow> (s, Inl StopIteration)
              | b # _ \<Rightarrow>
                  (case grids w model b of
                     Inl e \<Rightarrow> (s, Inl e)
                   | Inr (images, true_masks, out_masks) \<Rightarrow>
                  (case save_image (make_grid w images row_n) (p @ [''images.png'']) s of
                     (s1, Inl e) \<Rightarrow> (s1, Inl e)
                   | (s1, Inr _) \<Rightarrow>
                  (case save_image (make_grid w true_masks row_n) (p @ [''true_masks.png'']) s1 of
                     (s2, Inl e) \<Rightarrow> (s2, Inl e)
                   | (s2, Inr _) \<Rightarrow>
                  save_image (make_grid w out_masks row_n) (p @ [''out_masks.png'']) s2)))))"

subsection \<open>The script\<close>

definition print :: "string \<Rightarrow> sys \<Rightarrow> sys" where
  "print line s = s\<lparr>stdout := stdout s @ [line]\<rparr>"

definition mkdir_parents :: "path \<Rightarrow> sys \<Rightarrow> sys" where
  \<comment> \<open>\<^verbatim>\<open>if not p.exists(): p.mkdir(parents=True)\<close>\<close>
  "mkdir_parents p s =
     (if p \<in> dirs s then s else s\<lparr>dirs := dirs s \<union> set (map (\<lambda>k. take k p) [1..<Suc (length p)])\<rparr>)"

definition write_csv :: "path \<Rightarrow> cell list list \<Rightarrow> sys \<Rightarrow> sys \<times> (error + unit)" where
  \<comment> \<open>lines 146 to 148\<close>
  "write_csv p rows s =
     (if butlast p \<in> dirs s then (s\<lparr>files := (files s)(p \<mapsto> Csv rows)\<rparr>, Inr ())
      else (s, Inl (OtherError ''FileNotFoundError'')))"

definition report ::
  "world \<Rightarrow> (real \<times> real) \<times> (real \<times> real) \<times> (real \<times> real) \<Rightarrow> sys \<Rightarrow> sys \<times> (error + unit)" where
  \<comment> \<open>lines 120 to 150: the three printed lines, the rows and the CSV file\<close>
  "report w scores s =
     (case scores of (train_score, val_score, test_score) \<Rightarrow>
      case tuple_format w train_score ''.4f'' of Inl e \<Rightarrow> (s, Inl e) | Inr t1 \<Rightarrow>
      let s1 = print (''Training Dice score: '' @ t1) s in
      case tuple_format w val_score ''.4f'' of Inl e \<Rightarrow> (s1, Inl e) | Inr t2 \<Rightarrow>
      let s2 = print (''Validation Dice score: '' @ t2) s1 in
      case tuple_format w test_score ''.4f'' of Inl e \<Rightarrow> (s2, Inl e) | Inr t3 \<Rightarrow>
      let s3 = print (''Test Dice score: '' @ t3) s2 in
      case tuple_item train_score of Inl e \<Rightarrow> (s3, Inl e) | Inr x1 \<Rightarrow>
      case tuple_item val_score of Inl e \<Rightarrow> (s3, Inl e) | Inr x2 \<Rightarrow>
      case tuple_item test_score of Inl e \<Rightarrow> (s3, Inl e) | Inr x3 \<Rightarrow>
      let scores = [[Str ''Dataset'', Str ''Score''],
                    [Str ''Training'', Num x1],
                    [Str ''Validation'', Num x2],
                    [Str ''Test'', Num x3]];
          s4 = mkdir_parents [''results'', ''train''] s3;
          s5 = mkdir_parents [''results'', ''val''] s4;
          s6 = mkdir_parents [''results'', ''test''] s5
      in case write_csv [''results'', ''scores.csv''] scores s6 of
           (s7, Inl e) \<Rightarrow> (s7, Inl e)
         | (s7, Inr _) \<Rightarrow> (print ''Scores saved in scores.csv'' s7, Inr ()))"

definition main :: "world \<Rightarrow> args \<Rightarrow> sys \<Rightarrow> sys \<times> (error + unit)" where
  \<comment> \<open>lines 63 to 156\<close>
  "main w a s =
     (case load_net w a of Inl e \<Rightarrow> (s, Inl e) | Inr net0 \<Rightarrow>
      let net = net_eval net0 in
      case build_sets w a of Inl e \<Rightarrow> (s, Inl e) | Inr sets \<Rightarrow>
      case run_evaluations net (build_loaders sets) of
        (net', Inl e) \<Rightarrow> (s, Inl e)
      | (net', Inr scores) \<Rightarrow>
      case report w scores s of
        (s1, Inl e) \<Rightarrow> (s1, Inl e)
      | (s1, Inr _) \<Rightarrow>
      case sets of (train_set, val_set, test_set) \<Rightarrow>
      case qualitative_results w train_set [''results'', ''train''] net' s1 of
        (s2, Inl e) \<Rightarrow> (s2, Inl e)
      | (s2, Inr _) \<Rightarrow>
      case qualitative_results w val_set [''results'', ''val''] net' s2 of
        (s3, Inl e) \<Rightarrow> (s3, Inl e)
      | (s3, Inr _) \<Rightarrow>
      case qualitative_results w test_set [''results'', ''test''] net' s3 of
        (s4, Inl e) \<Rightarrow> (s4, Inl e)
      | (s4, Inr _) \<Rightarrow> (print ''Qualitative results saved in ./results/'' s4, Inr ()))"

section \<open>Example inputs\<close>

text \<open>
  Small concrete models and batches on which the theorems below are instantiated: a
  two-class model whose logits for a one-channel input \<open>x\<close> are \<open>(- x, x)\<close>, a one-class
  model whose output is its input (shape \<open>B # 1 # H # W\<close>), and a one-class model
  whose output has the shape \<open>B # H # W\<close> of the masks. On \<open>imperfect_batch\<close> the
  two-class model predicts class 1 at the first pixel only, while both pixels are
  labelled 1. For the script: a world whose format-specific loader rejects every
  directory and whose generic loader gives a dataset of one sample, the arguments of a
  run with \<^verbatim>\<open>--default\<close>, and a file system with no directory and no file.
\<close>

definition two_channel_logits :: "real tensor \<Rightarrow> real tensor" where
  "two_channel_logits x =
     \<lparr>shape = (case shape x of b # c # rest \<Rightarrow> b # 2 # rest | s \<Rightarrow> s),
      data = concat (map (\<lambda>r. map uminus r @ r) (batch_items x))\<rparr>"

definition example_net :: net where
  "example_net =
     \<lparr>n_classes = 2, training = True, forward = (\<lambda>tr x. Inr (two_channel_logits x))\<rparr>"

definition example_binary_net :: net where
  "example_binary_net = \<lparr>n_classes = 1, training = True, forward = (\<lambda>tr x. Inr x)\<rparr>"

definition example_flat_binary_net :: net where
  "example_flat_binary_net =
     \<lparr>n_classes = 1, training = True, forward = (\<lambda>tr x. squeeze_1 x)\<rparr>"

definition example_batch :: batch where
  "example_batch =
     \<lparr>image_b = \<lparr>shape = [1, 1, 1, 2], data = [3, - 1]\<rparr>,
      mask_b = \<lparr>shape = [1, 1, 2], data = [1, 0]\<rparr>\<rparr>"

definition bad_label_batch :: batch where
  "bad_label_batch =
     \<lparr>image_b = \<lparr>shape = [1, 1, 1, 2], data = [3, - 1]\<rparr>,
      mask_b = \<lparr>shape = [1, 1, 2], data = [2, 0]\<rparr>\<rparr>"

definition tall_batch :: batch where
  "tall_batch =
     \<lparr>image_b = \<lparr>shape = [1, 1, 2, 1], data = [3, - 1]\<rparr>,
      mask_b = \<lparr>shape = [1, 2, 1], data = [1, 0]\<rparr>\<rparr>"

definition imperfect_batch :: batch where
  "imperfect_batch =
     \<lparr>image_b = \<lparr>shape = [1, 1, 1, 2], data = [3, - 1]\<rparr>,
      mask_b = \<lparr>shape = [1, 1, 2], data = [1, 1]\<rparr>\<rparr>"

definition example_sample :: sample where
  "example_sample =
     \<lparr>image_s = \<lparr>shape = [1, 1, 2], data = [3, - 1]\<rparr>,
      mask_s = \<lparr>shape = [1, 2], data = [1, 0]\<rparr>\<rparr>"

definition example_world :: world where
  "example_world =
     \<lparr>CarvanaDataset = (\<lambda>imgs masks scale. Inl IndexError),
      BasicDataset = (\<lambda>imgs masks scale. Inr [example_sample]),
      load_net = (\<lambda>a. Inr example_net),
      randperm = (\<lambda>n. [0..<n]),
      interpolate = (\<lambda>t out_size. Inr t),
      make_grid = (\<lambda>t nrow. t),
      str_tuple = (\<lambda>t. ''(score, loss)'')\<rparr>"

definition default_args :: args where
  "default_args =
     \<lparr>model_file = ''MODEL.pth'', amp = False, bilinear = False, classes = 2,
      default_flag = True\<rparr>"

definition empty_sys :: sys where
  "empty_sys = \<lparr>stdout = [], dirs = {}, files = Map.empty\<rparr>"

section \<open>Properties\<close>

lemma bind_err_Inr [simp]: "bind_err (Inr x) f = f x"
  by (simp add: bind_err_def)

lemma bind_err_Inl [simp]: "bind_err (Inl e) f = Inl e"
  by (simp add: bind_err_def)

lemma bind_err_Inr_iff:
  "bind_err m f = Inr y \<longleftrightarrow> (\<exists>x. m = Inr x \<and> f x = Inr y)"
  by (cases m) simp_all

subsection \<open>The division of line 59\<close>

lemma py_div_max: "py_div x (max k 1) = Inr (x / real (max k 1))"
  by (simp add: py_div_def max_def)

lemma evaluate_eq:
  "evaluate n0 dataloader =
     (case evaluate_loop (net_eval n0) dataloader (0, 0) of
        Inl e \<Rightarrow> (net_eval n0, Inl e)
      | Inr (dice_score, loss_total) \<Rightarrow>
          (net_train (net_eval n0),
           Inr (dice_score / real (max (length dataloader) 1),
                loss_total / real (max (length dataloader) 1))))"
proof (cases "evaluate_loop (net_eval n0) dataloader (0, 0)")
  case (Inl e)
  then show ?thesis
    by (simp add: evaluate_def)
next
  case (Inr r)
  then show ?thesis
    by (cases r) (simp add: evaluate_def Let_def py_div_def)
qed

subsection \<open>The mode of the model and the loop\<close>


lemma batch_loss_cong:
  assumes "n_classes n' = n_classes n"
  shows "batch_loss n' p t = batch_loss n p t"
  unfolding batch_loss_def criterion_float_def criterion_long_def assms by (rule refl)

lemma batch_dice_cong:
  assumes "n_classes n' = n_classes n"
  shows "batch_dice n' p t = batch_dice n p t"
  unfolding batch_dice_def assms by (rule refl)

lemma evaluate_batch_cong:
  assumes "n_classes n' = n_classes n" "forward n' (training n') = forward n (training n)"
  shows "evaluate_batch n' b = evaluate_batch n b"
  unfolding evaluate_batch_def call_net_def assms(2)
    batch_loss_cong [OF assms(1)] batch_dice_cong [OF assms(1)] by (rule refl)

lemma evaluate_loop_cong:
  assumes "n_classes n' = n_classes n" "forward n' (training n') = forward n (training n)"
  shows "evaluate_loop n' dl acc = evaluate_loop n dl acc"
proof (induction dl arbitrary: acc)
  case Nil
  show ?case by simp
next
  case (Cons b bs)
  obtain d l where acc: "acc = (d, l)" by (cases acc)
  have eb: "evaluate_batch n' b = evaluate_batch n b"
    by (rule evaluate_batch_cong [OF assms])
  show ?case
    unfolding acc evaluate_loop.simps eb
    by (simp add: Cons.IH split: sum.split)
qed

lemma evaluate_result_cong:
  assumes "n_classes n' = n_classes n" "forward n' False = forward n False"
  shows "snd (evaluate n' dl) = snd (evaluate n dl)"
proof -
  have eq: "evaluate_loop (net_eval n') dl (0, 0) = evaluate_loop (net_eval n) dl (0, 0)"
    by (rule evaluate_loop_cong) (simp_all add: net_eval_def assms)
  show ?thesis
  proof (cases "evaluate_loop (net_eval n) dl (0, 0)")
    case (Inl e)
    then show ?thesis by (simp add: evaluate_eq eq)
  next
    case (Inr r)
    then show ?thesis by (cases r) (simp add: evaluate_eq eq Let_def)
  qed
qed

lemma evaluate_training_iff:
  "training (fst (evaluate n dl)) \<longleftrightarrow> (\<exists>r. snd (evaluate n dl) = Inr r)"
proof (cases "evaluate_loop (net_eval n) dl (0, 0)")
  case (Inl e)
  then show ?thesis by (simp add: evaluate_eq net_eval_def)
next
  case (Inr r)
  then show ?thesis by (cases r) (simp add: evaluate_eq net_train_def Let_def)
qed

text \<open>
  C1 (as amended). \<open>evaluate\<close> switches the model into evaluation mode at entry: every
  forward pass of the loop runs in evaluation mode, so the result depends on the model
  only through its class count and its evaluation-mode forward pass. When \<open>evaluate\<close>
  returns normally the model is in training mode. When an error is raised in the loop,
  line 58 is not reached and the model is left in evaluation mode.
\<close>

theorem evaluate_mode_discipline:
  "(\<forall>n'::net. n_classes n' = n_classes n \<and> forward n' False = forward n False
          \<longrightarrow> snd (evaluate n' dl) = snd (evaluate n dl))
   \<and> (\<forall>r. snd (evaluate n dl) = Inr r \<longrightarrow> training (fst (evaluate n dl)))
   \<and> (\<forall>e. snd (evaluate n dl) = Inl e \<longrightarrow> \<not> training (fst (evaluate n dl)))"
proof (intro conjI allI impI)
  fix n' :: net assume "n_classes n' = n_classes n \<and> forward n' False = forward n False"
  then show "snd (evaluate n' dl) = snd (evaluate n dl)"
    using evaluate_result_cong [of n' n dl] by blast
next
  fix r assume "snd (evaluate n dl) = Inr r"
  then show "training (fst (evaluate n dl))"
    using evaluate_training_iff [of n dl] by blast
next
  fix e assume "snd (evaluate n dl) = Inl e"
  then show "\<not> training (fst (evaluate n dl))"
    using evaluate_training_iff [of n dl] by simp
qed

lemma evaluate_loop_append:
  "evaluate_loop n (xs @ ys) acc =
     (case evaluate_loop n xs acc of Inl e \<Rightarrow> Inl e | Inr acc' \<Rightarrow> evaluate_loop n ys acc')"
proof (induction xs arbitrary: acc)
  case Nil
  show ?case by simp
next
  case (Cons b bs)
  obtain d l where acc: "acc = (d, l)" by (cases acc)
  show ?case
    unfolding acc append_Cons evaluate_loop.simps
    by (simp add: Cons.IH split: sum.split)
qed

lemma tensor_min_le:
  assumes "tensor_min t = Inr lo" "l \<in> set (data t)"
  shows "lo \<le> l"
proof -
  obtain x xs where xs: "data t = x # xs"
    using assms(2) by (cases "data t") auto
  have "lo = fold min xs x"
    using assms(1) by (simp add: tensor_min_def xs)
  also have "\<dots> = Min (set (x # xs))"
    by (rule Min.set_eq_fold [symmetric])
  finally show ?thesis
    using assms(2) by (simp only: xs [symmetric] Min_le List.finite_set)
qed

lemma tensor_max_ge:
  assumes "tensor_max t = Inr hi" "l \<in> set (data t)"
  shows "l \<le> hi"
proof -
  obtain x xs where xs: "data t = x # xs"
    using assms(2) by (cases "data t") auto
  have "hi = fold max xs x"
    using assms(1) by (simp add: tensor_max_def xs)
  also have "\<dots> = Max (set (x # xs))"
    by (rule Max.set_eq_fold [symmetric])
  finally show ?thesis
    using assms(2) by (simp only: xs [symmetric] Max_ge List.finite_set)
qed

lemma batch_dice_in_range:
  assumes "batch_dice n p t = Inr d" "l \<in> set (data t)"
  shows "0 \<le> l \<and> (if n_classes n = 1 then l \<le> 1 else l < n_classes n)"
proof -
  obtain lo where lo: "tensor_min t = Inr lo"
    using assms(1) by (cases "tensor_min t") (simp_all add: batch_dice_def split: if_splits)
  have lo0: "0 \<le> lo"
    using assms(1) by (simp add: batch_dice_def lo split: if_splits)
  obtain hi where hi: "tensor_max t = Inr hi"
    using assms(1) lo0 by (cases "tensor_max t") (simp_all add: batch_dice_def lo split: if_splits)
  have hi1: "if n_classes n = 1 then hi \<le> 1 else hi < n_classes n"
    using assms(1) lo0 by (simp add: batch_dice_def lo hi split: if_splits)
  have "lo \<le> l" "l \<le> hi"
    using tensor_min_le [OF lo assms(2)] tensor_max_ge [OF hi assms(2)] by simp_all
  with lo0 hi1 show ?thesis
    by (simp split: if_splits)
qed

lemma evaluate_batch_in_range:
  assumes "evaluate_batch n b = Inr r" "l \<in> set (data (mask_b b))"
  shows "0 \<le> l \<and> (if n_classes n = 1 then l \<le> 1 else l < n_classes n)"
proof -
  obtain p where p: "call_net n (image_b b) = Inr p"
    using assms(1) by (cases "call_net n (image_b b)") (simp_all add: evaluate_batch_def)
  obtain loss where loss: "batch_loss n p (mask_b b) = Inr loss"
    using assms(1) by (cases "batch_loss n p (mask_b b)") (simp_all add: evaluate_batch_def p)
  obtain d where d: "batch_dice n p (mask_b b) = Inr d"
    using assms(1) by (cases "batch_dice n p (mask_b b)") (simp_all add: evaluate_batch_def p loss)
  show ?thesis
    by (rule batch_dice_in_range [OF d assms(2)])
qed

lemma evaluate_loop_abort:
  assumes "evaluate_batch n b = Inl e"
  shows "evaluate_loop n (b # post) acc = Inl e"
  using assms by (cases acc) simp

subsection \<open>Concrete runs\<close>


lemmas eval_defs = evaluate_eq evaluate_batch_def call_net_def net_eval_def net_train_def
lemmas ex_defs = example_net_def example_binary_net_def example_flat_binary_net_def
  example_batch_def bad_label_batch_def tall_batch_def two_channel_logits_def

lemma bad_loss: "\<exists>l. batch_loss example_binary_net (image_b bad_label_batch) (mask_b bad_label_batch) = Inr l"
  by (simp add: batch_loss_def ex_defs squeeze_1_def criterion_float_def BCEWithLogitsLoss_def
        dice_loss_def dice_coeff_def F_sigmoid_def tmap_def to_float_def)

lemma bad_dice: "batch_dice example_binary_net (image_b bad_label_batch) (mask_b bad_label_batch)
   = Inl (AssertionError ''True mask indices should be in [0, 1]'')"
  by (simp add: batch_dice_def ex_defs tensor_min_def tensor_max_def)

lemma sigmoid_gt_half: "1 / 2 < sigmoid x \<longleftrightarrow> 0 < x"
proof -
  have pos: "0 < 1 + exp (- x)"
    by (simp add: add_pos_pos)
  have "1 / 2 < sigmoid x \<longleftrightarrow> 1 + exp (- x) < 2"
    unfolding sigmoid_def using pos by (simp add: field_simps)
  also have "\<dots> \<longleftrightarrow> exp (- x) < exp 0"
    by simp
  also have "\<dots> \<longleftrightarrow> 0 < x"
    unfolding exp_less_cancel_iff by simp
  finally show ?thesis .
qed

lemma sigmoid_gt_half_mult: "1 < sigmoid x * 2 \<longleftrightarrow> 0 < x"
  using sigmoid_gt_half [of x] by simp

lemmas tensor_defs = squeeze_1_def F_sigmoid_def tmap_def to_float_def tensor_min_def
  tensor_max_def greater_than_def F_softmax_1_def argmax_1_def argmax_list_def F_one_hot_def
  permute_0_3_1_2_def slice_1_from_1_def one_hot_mask_def batch_items_def chunks_def
  channel_def n_channels_def upt_conv_Cons
lemmas loss_defs = criterion_float_def criterion_long_def BCEWithLogitsLoss_def
  CrossEntropyLoss_def ignore_index_def dice_loss_def dice_coeff_def multiclass_dice_coeff_def

lemma bad_batch: "evaluate_batch (net_eval example_binary_net) bad_label_batch
   = Inl (AssertionError ''True mask indices should be in [0, 1]'')"
  by (simp add: eval_defs ex_defs batch_loss_def batch_dice_def tensor_defs loss_defs)

text \<open>
  C1, the claim as stated fails: the one-class model starts in training mode, the
  label 2 fails the assertion of line 46 in the first batch, and the model is left in
  evaluation mode.
\<close>

theorem restore_skipped_on_error:
  "training example_binary_net
   \<and> snd (evaluate example_binary_net [bad_label_batch])
       = Inl (AssertionError ''True mask indices should be in [0, 1]'')
   \<and> \<not> training (fst (evaluate example_binary_net [bad_label_batch]))"
  by (simp add: evaluate_eq bad_batch) (simp add: example_binary_net_def net_eval_def)

lemma good_batch: "\<exists>loss. evaluate_batch (net_eval example_net) example_batch = Inr (1, loss)"
  by (simp add: eval_defs ex_defs batch_loss_def batch_dice_def tensor_defs loss_defs
       dice_same_shape_def mean_def dice_value_def default_epsilon_def)

lemma good_tall_batch:
  "\<exists>loss. evaluate_batch (net_eval example_flat_binary_net) tall_batch = Inr (1, loss)"
  by (simp add: eval_defs ex_defs batch_loss_def batch_dice_def tensor_defs loss_defs
       dice_same_shape_def mean_def dice_value_def default_epsilon_def sigmoid_gt_half_mult)

lemma good_run: "\<exists>loss. snd (evaluate example_net [example_batch]) = Inr (1, loss)"
proof -
  obtain loss where "evaluate_batch (net_eval example_net) example_batch = Inr (1, loss)"
    using good_batch by blast
  then show ?thesis
    by (simp add: evaluate_eq)
qed

theorem evaluate_mode_discipline_witness:
  "snd (evaluate (example_net\<lparr>training := False\<rparr>) [example_batch])
     = snd (evaluate example_net [example_batch])
   \<and> training (fst (evaluate example_net [example_batch]))
   \<and> \<not> training (fst (evaluate example_binary_net [bad_label_batch]))"
proof -
  note good = evaluate_mode_discipline [of example_net "[example_batch]"]
  note bad = evaluate_mode_discipline [of example_binary_net "[bad_label_batch]"]
  have "n_classes (example_net\<lparr>training := False\<rparr>) = n_classes example_net
        \<and> forward (example_net\<lparr>training := False\<rparr>) False = forward example_net False"
    by simp
  with good have a: "snd (evaluate (example_net\<lparr>training := False\<rparr>) [example_batch])
     = snd (evaluate example_net [example_batch])"
    by blast
  obtain loss where "snd (evaluate example_net [example_batch]) = Inr (1, loss)"
    using good_run by blast
  with good have b: "training (fst (evaluate example_net [example_batch]))"
    by blast
  have "snd (evaluate example_binary_net [bad_label_batch])
       = Inl (AssertionError ''True mask indices should be in [0, 1]'')"
    by (simp add: evaluate_eq bad_batch)
  with bad have c: "\<not> training (fst (evaluate example_binary_net [bad_label_batch]))"
    by blast
  from a b c show ?thesis by blast
qed

subsection \<open>Labels out of range\<close>


lemma batch_loss_in_range:
  assumes "n_classes n \<noteq> 1" "batch_loss n p t = Inr loss" "l \<in> set (data t)"
  shows "0 \<le> l \<and> l < n_classes n"
proof -
  from assms(1,2) obtain oh where "one_hot_mask t (n_classes n) = Inr oh"
    by (auto simp: batch_loss_def bind_err_Inr_iff)
  then obtain h where "F_one_hot t (n_classes n) = Inr h"
    by (auto simp: one_hot_mask_def bind_err_Inr_iff)
  then have "\<not> (\<exists>l \<in> set (data t). l < 0 \<or> n_classes n \<le> l)"
    by (simp add: F_one_hot_def split: if_splits)
  with assms(3) show ?thesis
    by auto
qed

lemma one_hot_mask_error:
  "one_hot_mask t k = Inl e \<Longrightarrow> e = RuntimeError"
  by (auto simp: one_hot_mask_def F_one_hot_def permute_0_3_1_2_def bind_err_def
      split: if_splits sum.splits list.splits)

lemma dice_loss_error:
  "dice_loss x y mc = Inl e \<Longrightarrow> e = ShapeError"
  by (auto simp: dice_loss_def dice_coeff_def multiclass_dice_coeff_def bind_err_def
      split: if_splits sum.splits)

lemma criterion_long_error:
  "criterion_long n x t = Inl e \<Longrightarrow> e = ValueError \<or> e = IndexError \<or> e = RuntimeError"
  by (auto simp: criterion_long_def CrossEntropyLoss_def Let_def
      split: if_splits list.splits)

lemma softmax_error:
  "F_softmax_1 x = Inl e \<Longrightarrow> e = IndexError"
  by (auto simp: F_softmax_1_def Let_def split: list.splits)

lemma batch_loss_multiclass_error:
  assumes "n_classes n \<noteq> 1" "batch_loss n p t = Inl e"
  shows "e = ValueError \<or> e = IndexError \<or> e = RuntimeError \<or> e = ShapeError"
proof (cases "criterion_long n p t")
  case (Inl e1)
  with assms have "e = e1" by (simp add: batch_loss_def)
  with criterion_long_error [OF Inl] show ?thesis by blast
next
  case c: (Inr loss)
  show ?thesis
  proof (cases "F_softmax_1 p")
    case (Inl e1)
    with assms c have "e = e1" by (simp add: batch_loss_def)
    with softmax_error [OF Inl] show ?thesis by blast
  next
    case s: (Inr sm)
    show ?thesis
    proof (cases "one_hot_mask t (n_classes n)")
      case (Inl e1)
      with assms c s have "e = e1" by (simp add: batch_loss_def)
      with one_hot_mask_error [OF Inl] show ?thesis by blast
    next
      case o: (Inr oh)
      show ?thesis
      proof (cases "dice_loss sm oh True")
        case (Inl e1)
        with assms c s o have "e = e1" by (simp add: batch_loss_def)
        with dice_loss_error [OF Inl] show ?thesis by blast
      next
        case (Inr dl)
        with assms c s o show ?thesis by (simp add: batch_loss_def)
      qed
    qed
  qed
qed

text \<open>
  C6, the claim as stated fails for a model of more than one class: the label 2 of
  the two-class example is rejected by the cross entropy of line 36, an IndexError,
  before the assertion of line 51 is reached.
\<close>

theorem multiclass_labels_rejected_by_loss:
  "snd (evaluate example_net [bad_label_batch]) = Inl IndexError"
  by (simp add: eval_defs ex_defs batch_loss_def tensor_defs loss_defs)

text \<open>
  C6 (as amended). If a batch holds a ground-truth label outside the valid range
  (below 0, or above 1 for a one-class model, or at least \<open>n_classes\<close> otherwise), the
  loop body raises on that batch, the loop stops there whatever batches follow, and
  \<open>evaluate\<close> raises instead of returning a score: no such batch contributes to a
  returned score. In the one-class branch, when the model and the loss computation
  succeed on the batch, the error is the assertion of line 46. In the other branch,
  when the model succeeds, the error is raised by the loss computation of lines 36 to
  41 (the range checks of the criterion and of the one-hot encoding): it is a
  ValueError, an IndexError, a RuntimeError or a shape error, and the assertion of
  line 51 is not reached.
\<close>

theorem out_of_range_labels_abort:
  assumes "\<exists>l \<in> set (data (mask_b b)).
             l < 0 \<or> (if n_classes n = 1 then 1 < l else n_classes n \<le> l)"
  shows "(\<exists>e. evaluate_batch n b = Inl e)
       \<and> (\<exists>e. evaluate_loop n (pre @ b # post) acc = Inl e
               \<and> evaluate_loop n (pre @ [b]) acc = Inl e)
       \<and> (\<exists>e. snd (evaluate n (pre @ b # post)) = Inl e)
       \<and> (\<forall>p loss. n_classes n = 1 \<and> call_net n (image_b b) = Inr p
               \<and> batch_loss n p (mask_b b) = Inr loss
             \<longrightarrow> evaluate_batch n b
                   = Inl (AssertionError ''True mask indices should be in [0, 1]''))
       \<and> (\<forall>p. n_classes n \<noteq> 1 \<and> call_net n (image_b b) = Inr p
             \<longrightarrow> (\<exists>e. batch_loss n p (mask_b b) = Inl e \<and> evaluate_batch n b = Inl e
                      \<and> (e = ValueError \<or> e = IndexError \<or> e = RuntimeError
                           \<or> e = ShapeError)))"
proof -
  obtain l where l: "l \<in> set (data (mask_b b))"
      "l < 0 \<or> (if n_classes n = 1 then 1 < l else n_classes n \<le> l)"
    using assms by blast
  have abort: "\<exists>e. evaluate_batch m b = Inl e" if m: "n_classes m = n_classes n" for m :: net
  proof (cases "evaluate_batch m b")
    case (Inl e)
    then show ?thesis by blast
  next
    case (Inr r)
    from evaluate_batch_in_range [OF Inr l(1)] l(2) m show ?thesis
      by (simp split: if_splits)
  qed
  have loop: "\<exists>e. evaluate_loop m (pre @ b # post) a = Inl e
                \<and> evaluate_loop m (pre @ [b]) a = Inl e"
    if m: "n_classes m = n_classes n" for m :: net and a
  proof (cases "evaluate_loop m pre a")
    case (Inl e)
    then show ?thesis
      by (simp add: evaluate_loop_append)
  next
    case (Inr a')
    obtain e where e: "evaluate_batch m b = Inl e"
      using abort [OF m] by blast
    have "evaluate_loop m (pre @ b # post) a = Inl e"
      by (simp add: evaluate_loop_append Inr evaluate_loop_abort [OF e])
    moreover have "evaluate_loop m (pre @ [b]) a = Inl e"
      by (simp add: evaluate_loop_append Inr evaluate_loop_abort [OF e])
    ultimately show ?thesis by blast
  qed
  have c1: "\<exists>e. evaluate_batch n b = Inl e"
    by (rule abort) simp
  have c2: "\<exists>e. evaluate_loop n (pre @ b # post) acc = Inl e
               \<and> evaluate_loop n (pre @ [b]) acc = Inl e"
    by (rule loop) simp
  have c3: "\<exists>e. snd (evaluate n (pre @ b # post)) = Inl e"
  proof -
    obtain e where "evaluate_loop (net_eval n) (pre @ b # post) (0, 0) = Inl e"
      using loop [of "net_eval n" "(0, 0)"] by (auto simp: net_eval_def)
    then show ?thesis
      by (simp add: evaluate_eq)
  qed
  have c4: "evaluate_batch n b = Inl (AssertionError ''True mask indices should be in [0, 1]'')"
    if h: "n_classes n = 1 \<and> call_net n (image_b b) = Inr p
           \<and> batch_loss n p (mask_b b) = Inr loss" for p loss
  proof -
    obtain x xs where xs: "data (mask_b b) = x # xs"
      using l(1) by (cases "data (mask_b b)") auto
    have lo: "tensor_min (mask_b b) = Inr (fold min xs x)"
      by (simp add: tensor_min_def xs)
    have hi: "tensor_max (mask_b b) = Inr (fold max xs x)"
      by (simp add: tensor_max_def xs)
    have "fold min xs x \<le> l" "l \<le> fold max xs x"
      using tensor_min_le [OF lo l(1)] tensor_max_ge [OF hi l(1)] by simp_all
    with l(2) h have "\<not> 0 \<le> fold min xs x \<or> \<not> fold max xs x \<le> 1"
      by auto
    then have "batch_dice n p (mask_b b)
        = Inl (AssertionError ''True mask indices should be in [0, 1]'')"
      using h by (auto simp: batch_dice_def lo hi)
    then show ?thesis
      using h by (simp add: evaluate_batch_def)
  qed
  have c5: "\<exists>e. batch_loss n p (mask_b b) = Inl e \<and> evaluate_batch n b = Inl e
               \<and> (e = ValueError \<or> e = IndexError \<or> e = RuntimeError \<or> e = ShapeError)"
    if h: "n_classes n \<noteq> 1 \<and> call_net n (image_b b) = Inr p" for p
  proof (cases "batch_loss n p (mask_b b)")
    case (Inl e)
    have "evaluate_batch n b = Inl e"
      using h Inl by (simp add: evaluate_batch_def)
    with Inl batch_loss_multiclass_error [of n p "mask_b b" e] h show ?thesis
      by blast
  next
    case (Inr loss)
    from batch_loss_in_range [OF _ Inr l(1)] h l(2) show ?thesis
      by auto
  qed
  from c1 c2 c3 c4 c5 show ?thesis by blast
qed

theorem out_of_range_labels_abort_witness:
  "(\<exists>e. snd (evaluate example_net ([example_batch] @ bad_label_batch # [example_batch])) = Inl e)
   \<and> evaluate_batch example_binary_net bad_label_batch
       = Inl (AssertionError ''True mask indices should be in [0, 1]'')
   \<and> (\<exists>e. batch_loss example_net (two_channel_logits (image_b bad_label_batch))
             (mask_b bad_label_batch) = Inl e
          \<and> evaluate_batch example_net bad_label_batch = Inl e)"
proof -
  have h2: "\<exists>l \<in> set (data (mask_b bad_label_batch)).
      l < 0 \<or> (if n_classes example_net = 1 then 1 < l else n_classes example_net \<le> l)"
    by (simp add: bad_label_batch_def example_net_def)
  have h1: "\<exists>l \<in> set (data (mask_b bad_label_batch)).
      l < 0 \<or> (if n_classes example_binary_net = 1 then 1 < l
                else n_classes example_binary_net \<le> l)"
    by (simp add: bad_label_batch_def example_binary_net_def)
  obtain loss where loss:
    "batch_loss example_binary_net (image_b bad_label_batch) (mask_b bad_label_batch) = Inr loss"
    using bad_loss by blast
  have call: "call_net example_binary_net (image_b bad_label_batch) = Inr (image_b bad_label_batch)"
    by (simp add: call_net_def example_binary_net_def)
  have one: "n_classes example_binary_net = 1"
    by (simp add: example_binary_net_def)
  have call2: "call_net example_net (image_b bad_label_batch)
      = Inr (two_channel_logits (image_b bad_label_batch))"
    by (simp add: call_net_def example_net_def)
  have two: "n_classes example_net \<noteq> 1"
    by (simp add: example_net_def)
  have a: "\<exists>e. snd (evaluate example_net ([example_batch] @ bad_label_batch # [example_batch])) = Inl e"
    using out_of_range_labels_abort [OF h2, of "[example_batch]" "[example_batch]"] by blast
  have b: "evaluate_batch example_binary_net bad_label_batch
       = Inl (AssertionError ''True mask indices should be in [0, 1]'')"
    using out_of_range_labels_abort [OF h1, of "[]" "[]"] one call loss by blast
  have c: "\<exists>e. batch_loss example_net (two_channel_logits (image_b bad_label_batch))
             (mask_b bad_label_batch) = Inl e
          \<and> evaluate_batch example_net bad_label_batch = Inl e"
    using out_of_range_labels_abort [OF h2, of "[]" "[]"] two call2 by blast
  from a b c show ?thesis by blast
qed

subsection \<open>The score is computed on hard masks\<close>


lemma evaluate_loop_sum:
  "evaluate_loop n dl (d0, l0) = Inr (d, l) \<Longrightarrow>
   \<exists>rs. map (evaluate_batch n) dl = map Inr rs
        \<and> d = d0 + sum_list (map fst rs) \<and> l = l0 + sum_list (map snd rs)"
proof (induction dl arbitrary: d0 l0)
  case Nil
  then show ?case by simp
next
  case (Cons b bs)
  from Cons.prems obtain d1 l1 where b: "evaluate_batch n b = Inr (d1, l1)"
    by (cases "evaluate_batch n b") auto
  with Cons.prems have "evaluate_loop n bs (d0 + d1, l0 + l1) = Inr (d, l)"
    by simp
  from Cons.IH [OF this] obtain rs where rs: "map (evaluate_batch n) bs = map Inr rs"
      "d = d0 + d1 + sum_list (map fst rs)" "l = l0 + l1 + sum_list (map snd rs)"
    by blast
  have "map (evaluate_batch n) (b # bs) = map Inr ((d1, l1) # rs)
        \<and> d = d0 + sum_list (map fst ((d1, l1) # rs))
        \<and> l = l0 + sum_list (map snd ((d1, l1) # rs))"
    using b rs by simp
  then show ?case by blast
qed

lemma evaluate_mean:
  assumes "snd (evaluate n dl) = Inr (score, loss)"
  shows "\<exists>rs. map (evaluate_batch (net_eval n)) dl = map Inr rs
        \<and> score = sum_list (map fst rs) / real (max (length dl) 1)
        \<and> loss = sum_list (map snd rs) / real (max (length dl) 1)"
proof (cases "evaluate_loop (net_eval n) dl (0, 0)")
  case (Inl e)
  with assms show ?thesis by (simp add: evaluate_eq)
next
  case (Inr r)
  obtain d l where r: "r = (d, l)" by (cases r)
  from evaluate_loop_sum [OF Inr [unfolded r]] obtain rs where
    rs: "map (evaluate_batch (net_eval n)) dl = map Inr rs"
      "d = 0 + sum_list (map fst rs)" "l = 0 + sum_list (map snd rs)"
    by blast
  from assms Inr r have "score = d / real (max (length dl) 1)" "loss = l / real (max (length dl) 1)"
    by (simp_all add: evaluate_eq Let_def)
  with rs show ?thesis by auto
qed

lemma evaluate_batch_parts:
  assumes "evaluate_batch n b = Inr (d, l)"
  shows "\<exists>p. call_net n (image_b b) = Inr p \<and> batch_loss n p (mask_b b) = Inr l
           \<and> batch_dice n p (mask_b b) = Inr d"
proof -
  obtain p where p: "call_net n (image_b b) = Inr p"
    using assms by (cases "call_net n (image_b b)") (simp_all add: evaluate_batch_def)
  obtain l' where l': "batch_loss n p (mask_b b) = Inr l'"
    using assms by (cases "batch_loss n p (mask_b b)") (simp_all add: evaluate_batch_def p)
  obtain d' where d': "batch_dice n p (mask_b b) = Inr d'"
    using assms by (cases "batch_dice n p (mask_b b)") (simp_all add: evaluate_batch_def p l')
  from assms have "d' = d" "l' = l"
    by (simp_all add: evaluate_batch_def p l' d')
  with p l' d' show ?thesis by blast
qed

lemma concat_upt_length:
  "(\<And>i. i < n \<Longrightarrow> length (f i) = L) \<Longrightarrow> length (concat (map f [0..<n])) = n * L"
  by (induction n) simp_all

lemma concat_upt_chunk:
  assumes "\<And>i. i < n \<Longrightarrow> length (f i) = L" "i < n" "a + m \<le> L"
  shows "take m (drop (i * L + a) (concat (map f [0..<n]))) = take m (drop a (f i))"
  using assms
proof (induction n)
  case 0
  then show ?case by simp
next
  case (Suc n)
  let ?xs = "concat (map f [0..<n])"
  have len: "length ?xs = n * L"
    using Suc.prems(1) by (intro concat_upt_length) simp
  show ?case
  proof (cases "i < n")
    case True
    have "Suc i * L \<le> n * L"
      using True by (intro mult_le_mono1) simp
    then have le: "i * L + a + m \<le> length ?xs"
      using Suc.prems(3) len by simp
    have "take m (drop (i * L + a) (?xs @ f n)) = take m (drop (i * L + a) ?xs)"
      using le by simp
    also have "\<dots> = take m (drop a (f i))"
      using Suc.prems True by (intro Suc.IH) simp_all
    finally show ?thesis by simp
  next
    case False
    with Suc.prems(2) have "i = n" by simp
    then show ?thesis
      using len by simp
  qed
qed

lemma concat_upt_nth:
  assumes "\<And>i. i < n \<Longrightarrow> length (f i) = L" "i < n" "j < L"
  shows "concat (map f [0..<n]) ! (i * L + j) = f i ! j"
proof -
  have "take 1 (drop (i * L + j) (concat (map f [0..<n]))) = take 1 (drop j (f i))"
    using assms by (intro concat_upt_chunk) simp_all
  moreover have "i * L + j < length (concat (map f [0..<n]))"
  proof -
    have "Suc i * L \<le> n * L"
      using assms(2) by (intro mult_le_mono1) simp
    then show ?thesis
      using assms(3) concat_upt_length [of n f L] assms(1) by simp
  qed
  moreover have "j < length (f i)"
    using assms by simp
  ultimately show ?thesis
    by (simp add: take_Suc_conv_app_nth)
qed

lemma index_bound:
  fixes i y x :: nat
  assumes "i < B" "y < H" "x < W"
  shows "(i * H + y) * W + x < B * H * W"
proof -
  have "(i * H + y) * W + x < (i * H + y) * W + W"
    using assms(3) by simp
  also have "\<dots> = Suc (i * H + y) * W"
    by simp
  also have "\<dots> \<le> (Suc i * H) * W"
    using assms(2) by (intro mult_le_mono1) simp
  also have "\<dots> \<le> (B * H) * W"
    using assms(1) by (intro mult_le_mono1) simp
  finally show ?thesis .
qed


lemma concat_map_length:
  "(\<And>x. x \<in> set xs \<Longrightarrow> length (f x) = L) \<Longrightarrow> length (concat (map f xs)) = length xs * L"
  by (induction xs) simp_all

lemma concat4_cong:
  assumes "\<And>i k y x. i < B \<Longrightarrow> k < N \<Longrightarrow> y < H \<Longrightarrow> x < W \<Longrightarrow> F i k y x = G i k y x"
  shows "concat (map (\<lambda>i. concat (map (\<lambda>k. concat (map (\<lambda>y. map (\<lambda>x. F i k y x)
           [0..<W]) [0..<H])) [0..<N])) [0..<B])
       = concat (map (\<lambda>i. concat (map (\<lambda>k. concat (map (\<lambda>y. map (\<lambda>x. G i k y x)
           [0..<W]) [0..<H])) [0..<N])) [0..<B])"
  by (intro arg_cong [where f = concat] map_cong refl assms) simp_all

lemma pixel_index: "((a * H + y) * W + x) = a * (H * W) + (y * W + (x::nat))"
  by (simp add: algebra_simps)

lemma pixel_bound:
  fixes y x :: nat
  assumes "y < H" "x < W"
  shows "y * W + x < H * W"
  using index_bound [of 0 1 y H x W] assms by simp

lemma argmax_from_bound:
  "argmax_from xs i best v = best
   \<or> (i \<le> argmax_from xs i best v \<and> argmax_from xs i best v < i + length xs)"
proof (induction xs arbitrary: i best v)
  case Nil
  show ?case by simp
next
  case (Cons x xs)
  show ?case
    using Cons.IH [of "Suc i" i x] Cons.IH [of "Suc i" best v] by auto
qed

lemma argmax_list_bound:
  assumes "xs \<noteq> []"
  shows "argmax_list xs < length xs"
proof -
  obtain x rest where xs: "xs = x # rest"
    using assms by (cases xs) auto
  show ?thesis
    using argmax_from_bound [of rest 1 0 x] by (auto simp: argmax_list_def xs)
qed

lemma F_one_hot_nth:
  assumes "F_one_hot u (int N) = Inr h" "q < length (data u)" "k < N"
  shows "data h ! (q * N + k) = (if data u ! q = int k then 1 else 0)"
proof -
  have h: "data h = concat (map (\<lambda>l. map (\<lambda>c. if l = int c then 1 else 0) [0..<N]) (data u))"
    using assms(1) by (auto simp: F_one_hot_def split: if_splits)
  have "map (\<lambda>l. map (\<lambda>c. if l = int c then 1 else (0::int)) [0..<N]) (data u)
      = map (\<lambda>l. map (\<lambda>c. if l = int c then 1 else 0) [0..<N])
          (map (\<lambda>q. data u ! q) [0..<length (data u)])"
    by (simp only: map_nth)
  also have "\<dots> = map (\<lambda>q. map (\<lambda>c. if data u ! q = int c then 1 else 0) [0..<N])
          [0..<length (data u)]"
    by (simp add: o_def)
  finally have "data h ! (q * N + k)
      = concat (map (\<lambda>q. map (\<lambda>c. if data u ! q = int c then 1 else (0::int)) [0..<N])
          [0..<length (data u)]) ! (q * N + k)"
    by (simp only: h)
  also have "\<dots> = map (\<lambda>c. if data u ! q = int c then 1 else (0::int)) [0..<N] ! k"
    using assms(2,3) by (intro concat_upt_nth) simp_all
  also have "\<dots> = (if data u ! q = int k then 1 else 0)"
    using assms(3) by simp
  finally show ?thesis .
qed

lemma one_hot_mask_data:
  assumes "shape u = [B, H, W]" "length (data u) = B * H * W" "0 < N"
    "\<forall>l \<in> set (data u). 0 \<le> l \<and> l < int N"
  shows "one_hot_mask u (int N) =
     Inr \<lparr>shape = [B, N, H, W],
          data = concat (map (\<lambda>i. concat (map (\<lambda>k. concat (map (\<lambda>y. map (\<lambda>x.
                   if data u ! ((i * H + y) * W + x) = int k then 1 else 0)
                 [0..<W]) [0..<H])) [0..<N])) [0..<B])\<rparr>"
proof -
  have "\<not> (\<exists>l \<in> set (data u). l < 0 \<or> l \<ge> int N)"
    using assms(4) by fastforce
  then obtain h where h: "F_one_hot u (int N) = Inr h"
    using assms(3) by (simp add: F_one_hot_def)
  have sh: "shape h = [B, H, W, N]"
    using h assms(1) by (auto simp: F_one_hot_def split: if_splits)
  have nth: "data h ! (((i * H + y) * W + x) * N + k)
      = (if data u ! ((i * H + y) * W + x) = int k then 1 else 0)"
    if "i < B" "k < N" "y < H" "x < W" for i k y x
    using that index_bound [of i B y H x W] assms(2)
    by (intro F_one_hot_nth [OF h]) simp_all
  have "concat (map (\<lambda>i. concat (map (\<lambda>k. concat (map (\<lambda>y. map (\<lambda>x.
            real_of_int (data h ! (((i * H + y) * W + x) * N + k)))
          [0..<W]) [0..<H])) [0..<N])) [0..<B])
      = concat (map (\<lambda>i. concat (map (\<lambda>k. concat (map (\<lambda>y. map (\<lambda>x.
            if data u ! ((i * H + y) * W + x) = int k then 1 else 0)
          [0..<W]) [0..<H])) [0..<N])) [0..<B])"
    by (rule concat4_cong) (simp add: nth)
  then show ?thesis
    by (simp add: one_hot_mask_def h permute_0_3_1_2_def sh to_float_def tmap_def
        map_concat o_def)
qed


lemma map_upt_cong:
  "(\<And>i. i < n \<Longrightarrow> f i = g i) \<Longrightarrow> map f [0..<n] = map g [0..<n]"
  by (rule map_cong [OF refl]) simp

lemma argmax_1_data:
  assumes "shape p = [B, N, H, W]" "0 < N"
  shows "\<exists>am. argmax_1 p = Inr am \<and> shape am = [B, H, W]
       \<and> length (data am) = B * H * W
       \<and> (\<forall>l \<in> set (data am). 0 \<le> l \<and> l < int N)
       \<and> (\<forall>i y x. i < B \<longrightarrow> y < H \<longrightarrow> x < W \<longrightarrow>
            data am ! ((i * H + y) * W + x)
              = int (argmax_list (map (\<lambda>c. data p ! (((i * N + c) * H + y) * W + x)) [0..<N])))"
proof -
  let ?row = "\<lambda>i. map (\<lambda>q. int (argmax_list (map (\<lambda>k. data p ! ((i * N + k) * (H * W) + q))
                 [0..<N]))) [0..<H * W]"
  let ?am = "\<lparr>shape = [B, H, W], data = concat (map ?row [0..<B])\<rparr>"
  have am: "argmax_1 p = Inr ?am"
    using assms by (simp add: argmax_1_def Let_def)
  have len: "length (data ?am) = B * H * W"
    using concat_upt_length [of B ?row "H * W"] by simp
  have rng: "0 \<le> l \<and> l < int N" if "l \<in> set (data ?am)" for l
  proof -
    from that obtain i q where
      l: "l = int (argmax_list (map (\<lambda>k. data p ! ((i * N + k) * (H * W) + q)) [0..<N]))"
      by auto
    have "argmax_list (map (\<lambda>k. data p ! ((i * N + k) * (H * W) + q)) [0..<N])
        < length (map (\<lambda>k. data p ! ((i * N + k) * (H * W) + q)) [0..<N])"
      using assms(2) by (intro argmax_list_bound) simp
    then show ?thesis
      by (simp add: l)
  qed
  have nth: "data ?am ! ((i * H + y) * W + x)
      = int (argmax_list (map (\<lambda>c. data p ! (((i * N + c) * H + y) * W + x)) [0..<N]))"
    if "i < B" "y < H" "x < W" for i y x
  proof -
    have e: "((a * H + y) * W + x) = a * (H * W) + (y * W + x)" for a
      by (rule pixel_index)
    have "data ?am ! ((i * H + y) * W + x) = concat (map ?row [0..<B]) ! (i * (H * W) + (y * W + x))"
      by (simp only: e tensor.simps)
    also have "\<dots> = ?row i ! (y * W + x)"
      using that pixel_bound [of y H x W] by (intro concat_upt_nth) simp_all
    also have "\<dots> = int (argmax_list (map (\<lambda>k. data p ! ((i * N + k) * (H * W) + (y * W + x)))
                 [0..<N]))"
      using that pixel_bound [of y H x W] by simp
    also have "\<dots> = int (argmax_list (map (\<lambda>c. data p ! (((i * N + c) * H + y) * W + x)) [0..<N]))"
      by (simp only: e)
    finally show ?thesis .
  qed
  show ?thesis
  proof (intro exI [of _ ?am] conjI)
    show "argmax_1 p = Inr ?am" by (rule am)
    show "shape ?am = [B, H, W]" by simp
    show "length (data ?am) = B * H * W" by (rule len)
    show "\<forall>l \<in> set (data ?am). 0 \<le> l \<and> l < int N" using rng by blast
    show "\<forall>i y x. i < B \<longrightarrow> y < H \<longrightarrow> x < W \<longrightarrow>
            data ?am ! ((i * H + y) * W + x)
              = int (argmax_list (map (\<lambda>c. data p ! (((i * N + c) * H + y) * W + x)) [0..<N]))"
      using nth by blast
  qed
qed

lemma slice_1_from_1_data:
  assumes "shape u = [B, N, H, W]" "0 < N"
    "data u = concat (map (\<lambda>i. concat (map (G i) [0..<N])) [0..<B])"
    "\<And>i k. i < B \<Longrightarrow> k < N \<Longrightarrow> length (G i k) = H * W"
  shows "slice_1_from_1 u =
     Inr \<lparr>shape = [B, N - 1, H, W],
          data = concat (map (\<lambda>i. concat (map (G i) [1..<N])) [0..<B])\<rparr>"
proof -
  let ?P = "H * W"
  have row: "length (concat (map (G i) [0..<N])) = N * ?P" if "i < B" for i
    using that assms(4) by (intro concat_upt_length) simp
  have tail: "length (concat (map (G i) [1..<N])) = (N - 1) * ?P" if "i < B" for i
    using concat_map_length [of "[1..<N]" "G i" ?P] that assms(4) by simp
  have split: "[0..<N] = 0 # [1..<N]"
    using assms(2) by (simp add: upt_conv_Cons)
  have each: "take ((N - 1) * ?P) (drop ((i * N + 1) * ?P) (data u)) = concat (map (G i) [1..<N])"
    if i: "i < B" for i
  proof -
    have idx: "(i * N + 1) * ?P = i * (N * ?P) + ?P"
      by (simp add: algebra_simps)
    have sum: "?P + (N - 1) * ?P \<le> N * ?P"
      using assms(2) by (cases N) simp_all
    have "take ((N - 1) * ?P) (drop ((i * N + 1) * ?P) (data u))
        = take ((N - 1) * ?P) (drop (i * (N * ?P) + ?P)
            (concat (map (\<lambda>i. concat (map (G i) [0..<N])) [0..<B])))"
      by (simp only: idx assms(3))
    also have "\<dots> = take ((N - 1) * ?P) (drop ?P (concat (map (G i) [0..<N])))"
      using row i sum by (intro concat_upt_chunk) simp_all
    also have "\<dots> = take ((N - 1) * ?P) (drop ?P (G i 0 @ concat (map (G i) [1..<N])))"
      by (subst split) simp
    also have "\<dots> = take ((N - 1) * ?P) (concat (map (G i) [1..<N]))"
      using assms(4) [OF i assms(2)] by simp
    also have "\<dots> = concat (map (G i) [1..<N])"
      using tail [OF i] by simp
    finally show ?thesis .
  qed
  have m: "map (\<lambda>i. take ((N - 1) * ?P) (drop ((i * N + 1) * ?P) (data u))) [0..<B]
      = map (\<lambda>i. concat (map (G i) [1..<N])) [0..<B]"
    by (rule map_upt_cong) (rule each)
  have P: "prod_list [H, W] = ?P"
    by simp
  show ?thesis
    unfolding slice_1_from_1_def assms(1) list.case Let_def P m by (rule refl)
qed

lemma channel_data:
  assumes "shape u = [B, M, H, W]"
    "data u = concat (map (\<lambda>i. concat (map (G i) [0..<M])) [0..<B])"
    "\<And>i k. i < B \<Longrightarrow> k < M \<Longrightarrow> length (G i k) = H * W" "k < M"
  shows "channel k u = \<lparr>shape = [B, H, W], data = concat (map (\<lambda>i. G i k) [0..<B])\<rparr>"
proof -
  let ?P = "H * W"
  have row: "length (concat (map (G i) [0..<M])) = M * ?P" if "i < B" for i
    using that assms(3) by (intro concat_upt_length) simp
  have each: "take ?P (drop ((i * M + k) * ?P) (data u)) = G i k" if i: "i < B" for i
  proof -
    have idx: "(i * M + k) * ?P = i * (M * ?P) + k * ?P"
      by (simp add: algebra_simps)
    have "Suc k * ?P \<le> M * ?P"
      using assms(4) by (intro mult_le_mono1) simp
    then have sum: "k * ?P + ?P \<le> M * ?P"
      by simp
    have "take ?P (drop ((i * M + k) * ?P) (data u))
        = take ?P (drop (i * (M * ?P) + k * ?P)
            (concat (map (\<lambda>i. concat (map (G i) [0..<M])) [0..<B])))"
      by (simp only: idx assms(2))
    also have "\<dots> = take ?P (drop (k * ?P) (concat (map (G i) [0..<M])))"
      using row i sum by (intro concat_upt_chunk) simp_all
    also have "\<dots> = take ?P (drop (k * ?P + 0) (concat (map (G i) [0..<M])))"
      by simp
    also have "\<dots> = take ?P (drop 0 (G i k))"
      using assms(3) [OF i] assms(4) by (intro concat_upt_chunk) simp_all
    also have "\<dots> = G i k"
      using assms(3) [OF i assms(4)] by simp
    finally show ?thesis .
  qed
  have m: "map (\<lambda>i. take ?P (drop ((i * M + k) * ?P) (data u))) [0..<B] = map (\<lambda>i. G i k) [0..<B]"
    by (rule map_upt_cong) (rule each)
  have P: "prod_list [H, W] = ?P"
    by simp
  show ?thesis
    unfolding channel_def assms(1) list.case Let_def P m by (rule refl)
qed

lemma batch_items_data:
  assumes "\<And>i. i < B \<Longrightarrow> length (g i) = H * W"
  shows "batch_items \<lparr>shape = [B, H, W], data = concat (map g [0..<B])\<rparr> = map g [0..<B]"
proof -
  let ?P = "H * W"
  have each: "take ?P (drop (i * ?P) (concat (map g [0..<B]))) = g i" if i: "i < B" for i
  proof -
    have "take ?P (drop (i * ?P + 0) (concat (map g [0..<B]))) = take ?P (drop 0 (g i))"
      using assms i by (intro concat_upt_chunk) simp_all
    then show ?thesis
      using assms [OF i] by simp
  qed
  have m: "map (\<lambda>i. take ?P (drop (i * ?P) (concat (map g [0..<B])))) [0..<B] = map g [0..<B]"
    by (rule map_upt_cong) (rule each)
  have P: "prod_list [H, W] = ?P"
    by simp
  show ?thesis
    unfolding batch_items_def chunks_def tensor.simps list.case P m by (rule refl)
qed

lemma dice_same_shape_items:
  assumes "\<And>i. i < B \<Longrightarrow> length (g i) = H * W" "\<And>i. i < B \<Longrightarrow> length (h i) = H * W"
  shows "dice_same_shape \<lparr>shape = [B, H, W], data = concat (map g [0..<B])\<rparr>
           \<lparr>shape = [B, H, W], data = concat (map h [0..<B])\<rparr> False epsilon
       = mean (map (\<lambda>i. dice_value (g i) (h i) epsilon) [0..<B])"
proof -
  have g: "batch_items \<lparr>shape = [B, H, W], data = concat (map g [0..<B])\<rparr> = map g [0..<B]"
    by (rule batch_items_data) (rule assms(1))
  have h: "batch_items \<lparr>shape = [B, H, W], data = concat (map h [0..<B])\<rparr> = map h [0..<B]"
    by (rule batch_items_data) (rule assms(2))
  show ?thesis
    unfolding dice_same_shape_def g h
    by (simp add: zip_map_map zip_same_conv_map o_def)
qed


lemma upt_shift:
  assumes "0 < N"
  shows "map f [1..<N] = map (\<lambda>k. f (Suc k)) [0..<N - 1]"
proof -
  have "[1..<N] = map Suc [0..<N - 1]"
    using assms by (simp add: map_Suc_upt)
  then show ?thesis
    by (simp add: o_def)
qed

lemma tensor_min_in:
  assumes "data t \<noteq> []"
  shows "\<exists>lo. tensor_min t = Inr lo \<and> lo \<in> set (data t)"
proof -
  obtain x xs where xs: "data t = x # xs"
    using assms by (cases "data t") auto
  have "fold min xs x = Min (set (x # xs))"
    by (rule Min.set_eq_fold [symmetric])
  moreover have "Min (set (x # xs)) \<in> set (x # xs)"
    by (rule Min_in) simp_all
  ultimately show ?thesis
    by (simp add: tensor_min_def xs)
qed

lemma tensor_max_in:
  assumes "data t \<noteq> []"
  shows "\<exists>hi. tensor_max t = Inr hi \<and> hi \<in> set (data t)"
proof -
  obtain x xs where xs: "data t = x # xs"
    using assms by (cases "data t") auto
  have "fold max xs x = Max (set (x # xs))"
    by (rule Max.set_eq_fold [symmetric])
  moreover have "Max (set (x # xs)) \<in> set (x # xs)"
    by (rule Max_in) simp_all
  ultimately show ?thesis
    by (simp add: tensor_max_def xs)
qed

lemma batch_dice_multiclass_in_range:
  assumes "n_classes n \<noteq> 1" "data t \<noteq> []" "\<forall>l \<in> set (data t). 0 \<le> l \<and> l < n_classes n"
  shows "batch_dice n p t =
      bind_err (one_hot_mask t (n_classes n)) (\<lambda>true_1h.
      bind_err (argmax_1 p) (\<lambda>am.
      bind_err (one_hot_mask am (n_classes n)) (\<lambda>pred_1h.
      bind_err (slice_1_from_1 pred_1h) (\<lambda>p'.
      bind_err (slice_1_from_1 true_1h) (\<lambda>t'.
      multiclass_dice_coeff p' t' False default_epsilon)))))"
proof -
  obtain lo where lo: "tensor_min t = Inr lo" "lo \<in> set (data t)"
    using tensor_min_in [OF assms(2)] by blast
  obtain hi where hi: "tensor_max t = Inr hi" "hi \<in> set (data t)"
    using tensor_max_in [OF assms(2)] by blast
  have "0 \<le> lo" "hi < n_classes n"
    using assms(3) lo(2) hi(2) by blast+
  then show ?thesis
    by (simp add: batch_dice_def assms(1) lo(1) hi(1))
qed

lemma batch_dice_binary_in_range:
  assumes "n_classes n = 1" "data t \<noteq> []" "\<forall>l \<in> set (data t). 0 \<le> l \<and> l \<le> 1"
  shows "batch_dice n p t =
      dice_coeff (tmap (\<lambda>x. if 1 / 2 < sigmoid x then 1 else 0) p) (to_float t)
        False default_epsilon"
proof -
  obtain lo where lo: "tensor_min t = Inr lo" "lo \<in> set (data t)"
    using tensor_min_in [OF assms(2)] by blast
  obtain hi where hi: "tensor_max t = Inr hi" "hi \<in> set (data t)"
    using tensor_max_in [OF assms(2)] by blast
  have r: "0 \<le> lo" "hi \<le> 1"
    using assms(3) lo(2) hi(2) by blast+
  have g: "greater_than (F_sigmoid p) (1 / 2)
      = tmap (\<lambda>x. if 1 / 2 < sigmoid x then 1 else 0) p"
    by (simp add: greater_than_def F_sigmoid_def tmap_def o_def)
  have "batch_dice n p t =
      dice_coeff (greater_than (F_sigmoid p) (1 / 2)) (to_float t) False default_epsilon"
    using r by (simp add: batch_dice_def assms(1) lo(1) hi(1))
  then show ?thesis
    by (simp only: g)
qed

lemma multiclass_dice_coeff_channels:
  assumes "0 < N"
    "\<And>i k. i < B \<Longrightarrow> k < N \<Longrightarrow> length (G i k) = H * W"
    "\<And>i k. i < B \<Longrightarrow> k < N \<Longrightarrow> length (G' i k) = H * W"
  shows "multiclass_dice_coeff
      \<lparr>shape = [B, N - 1, H, W], data = concat (map (\<lambda>i. concat (map (G i) [1..<N])) [0..<B])\<rparr>
      \<lparr>shape = [B, N - 1, H, W], data = concat (map (\<lambda>i. concat (map (G' i) [1..<N])) [0..<B])\<rparr>
      False epsilon
    = Inr (mean (map (\<lambda>k. mean (map (\<lambda>i. dice_value (G i k) (G' i k) epsilon) [0..<B]))
             [1..<N]))"
proof -
  let ?X = "\<lparr>shape = [B, N - 1, H, W],
            data = concat (map (\<lambda>i. concat (map (G i) [1..<N])) [0..<B])\<rparr>"
  let ?Y = "\<lparr>shape = [B, N - 1, H, W],
            data = concat (map (\<lambda>i. concat (map (G' i) [1..<N])) [0..<B])\<rparr>"
  have dx: "data ?X = concat (map (\<lambda>i. concat (map (\<lambda>k. G i (Suc k)) [0..<N - 1])) [0..<B])"
    by (simp only: tensor.simps upt_shift [OF assms(1)])
  have dy: "data ?Y = concat (map (\<lambda>i. concat (map (\<lambda>k. G' i (Suc k)) [0..<N - 1])) [0..<B])"
    by (simp only: tensor.simps upt_shift [OF assms(1)])
  have each: "dice_same_shape (channel k ?X) (channel k ?Y) False epsilon
      = mean (map (\<lambda>i. dice_value (G i (Suc k)) (G' i (Suc k)) epsilon) [0..<B])"
    if k: "k < N - 1" for k
  proof -
    have cx: "channel k ?X = \<lparr>shape = [B, H, W], data = concat (map (\<lambda>i. G i (Suc k)) [0..<B])\<rparr>"
      using k assms(2) by (intro channel_data [OF _ dx]) simp_all
    have cy: "channel k ?Y = \<lparr>shape = [B, H, W], data = concat (map (\<lambda>i. G' i (Suc k)) [0..<B])\<rparr>"
      using k assms(3) by (intro channel_data [OF _ dy]) simp_all
    show ?thesis
      unfolding cx cy using k assms(2,3) by (intro dice_same_shape_items) simp_all
  qed
  have "map (\<lambda>k. dice_same_shape (channel k ?X) (channel k ?Y) False epsilon) [0..<N - 1]
      = map (\<lambda>k. mean (map (\<lambda>i. dice_value (G i (Suc k)) (G' i (Suc k)) epsilon) [0..<B]))
          [0..<N - 1]"
    by (rule map_upt_cong) (rule each)
  also have "\<dots> = map (\<lambda>k. mean (map (\<lambda>i. dice_value (G i k) (G' i k) epsilon) [0..<B])) [1..<N]"
    by (rule upt_shift [OF assms(1), symmetric])
  finally have m: "map (\<lambda>k. dice_same_shape (channel k ?X) (channel k ?Y) False epsilon)
        [0..<N - 1]
      = map (\<lambda>k. mean (map (\<lambda>i. dice_value (G i k) (G' i k) epsilon) [0..<B])) [1..<N]" .
  have nc: "n_channels ?X = N - 1"
    by (simp add: n_channels_def)
  show ?thesis
    unfolding multiclass_dice_coeff_def nc m by simp
qed


lemma pixel_rows_length:
  "length (concat (map (\<lambda>y. map (\<lambda>x. F y x) [0..<W]) [0..<H])) = H * W"
  by (rule concat_upt_length) simp

lemma batch_dice_hard_masks:
  assumes nc: "n_classes n = int N" "2 \<le> N"
    and sp: "shape p = [B, N, H, W]"
    and st: "shape t = [B, H, W]" "length (data t) = B * H * W" "data t \<noteq> []"
    and rng: "\<forall>l \<in> set (data t). 0 \<le> l \<and> l < int N"
  shows "batch_dice n p t =
      multiclass_dice_coeff
        \<lparr>shape = [B, N - 1, H, W],
         data = concat (map (\<lambda>i. concat (map (\<lambda>k. concat (map (\<lambda>y. map (\<lambda>x.
                  if argmax_list (map (\<lambda>c. data p ! (((i * N + c) * H + y) * W + x)) [0..<N]) = k
                  then 1 else 0)
                [0..<W]) [0..<H])) [1..<N])) [0..<B])\<rparr>
        \<lparr>shape = [B, N - 1, H, W],
         data = concat (map (\<lambda>i. concat (map (\<lambda>k. concat (map (\<lambda>y. map (\<lambda>x.
                  if data t ! ((i * H + y) * W + x) = int k then 1 else 0)
                [0..<W]) [0..<H])) [1..<N])) [0..<B])\<rparr>
        False default_epsilon"
proof -
  let ?GP = "\<lambda>i k. concat (map (\<lambda>y. map (\<lambda>x.
                  if argmax_list (map (\<lambda>c. data p ! (((i * N + c) * H + y) * W + x)) [0..<N]) = k
                  then (1::real) else 0) [0..<W]) [0..<H])"
  let ?GT = "\<lambda>i k. concat (map (\<lambda>y. map (\<lambda>x.
                  if data t ! ((i * H + y) * W + x) = int k then (1::real) else 0)
                [0..<W]) [0..<H])"
  let ?P1 = "\<lparr>shape = [B, N, H, W],
              data = concat (map (\<lambda>i. concat (map (?GP i) [0..<N])) [0..<B])\<rparr>"
  let ?T1 = "\<lparr>shape = [B, N, H, W],
              data = concat (map (\<lambda>i. concat (map (?GT i) [0..<N])) [0..<B])\<rparr>"
  have N0: "0 < N"
    using nc(2) by simp
  have t1: "one_hot_mask t (int N) = Inr ?T1"
    by (rule one_hot_mask_data [OF st(1,2) N0 rng])
  obtain am where am: "argmax_1 p = Inr am" "shape am = [B, H, W]"
      "length (data am) = B * H * W" "\<forall>l \<in> set (data am). 0 \<le> l \<and> l < int N"
      "\<And>i y x. i < B \<Longrightarrow> y < H \<Longrightarrow> x < W \<Longrightarrow>
        data am ! ((i * H + y) * W + x)
          = int (argmax_list (map (\<lambda>c. data p ! (((i * N + c) * H + y) * W + x)) [0..<N]))"
    using argmax_1_data [OF sp N0] by blast
  have "concat (map (\<lambda>i. concat (map (\<lambda>k. concat (map (\<lambda>y. map (\<lambda>x.
            if data am ! ((i * H + y) * W + x) = int k then (1::real) else 0)
          [0..<W]) [0..<H])) [0..<N])) [0..<B])
      = concat (map (\<lambda>i. concat (map (\<lambda>k. concat (map (\<lambda>y. map (\<lambda>x.
            if argmax_list (map (\<lambda>c. data p ! (((i * N + c) * H + y) * W + x)) [0..<N]) = k
            then (1::real) else 0)
          [0..<W]) [0..<H])) [0..<N])) [0..<B])"
    by (rule concat4_cong) (simp add: am(5))
  then have p1: "one_hot_mask am (int N) = Inr ?P1"
    using one_hot_mask_data [OF am(2,3) N0 am(4)] by simp
  have sp': "slice_1_from_1 ?P1 =
      Inr \<lparr>shape = [B, N - 1, H, W],
           data = concat (map (\<lambda>i. concat (map (?GP i) [1..<N])) [0..<B])\<rparr>"
    by (rule slice_1_from_1_data [OF _ N0]) (simp_all only: tensor.simps pixel_rows_length)
  have st': "slice_1_from_1 ?T1 =
      Inr \<lparr>shape = [B, N - 1, H, W],
           data = concat (map (\<lambda>i. concat (map (?GT i) [1..<N])) [0..<B])\<rparr>"
    by (rule slice_1_from_1_data [OF _ N0]) (simp_all only: tensor.simps pixel_rows_length)
  have n1: "n_classes n \<noteq> 1"
    using nc by simp
  have "batch_dice n p t =
      bind_err (one_hot_mask t (n_classes n)) (\<lambda>true_1h.
      bind_err (argmax_1 p) (\<lambda>am.
      bind_err (one_hot_mask am (n_classes n)) (\<lambda>pred_1h.
      bind_err (slice_1_from_1 pred_1h) (\<lambda>p'.
      bind_err (slice_1_from_1 true_1h) (\<lambda>t'.
      multiclass_dice_coeff p' t' False default_epsilon)))))"
    using st(3) rng by (intro batch_dice_multiclass_in_range [OF n1]) (simp_all add: nc(1))
  then show ?thesis
    unfolding nc(1) t1 am(1) bind_err_Inr p1 sp' st' .
qed

lemma batch_dice_hard_value:
  assumes nc: "n_classes n = int N" "2 \<le> N"
    and sp: "shape p = [B, N, H, W]"
    and st: "shape t = [B, H, W]" "length (data t) = B * H * W" "data t \<noteq> []"
    and rng: "\<forall>l \<in> set (data t). 0 \<le> l \<and> l < int N"
  shows "batch_dice n p t =
      Inr (mean (map (\<lambda>k. mean (map (\<lambda>i. dice_value
          (concat (map (\<lambda>y. map (\<lambda>x.
             if argmax_list (map (\<lambda>c. data p ! (((i * N + c) * H + y) * W + x)) [0..<N]) = k
             then 1 else 0) [0..<W]) [0..<H]))
          (concat (map (\<lambda>y. map (\<lambda>x.
             if data t ! ((i * H + y) * W + x) = int k then 1 else 0) [0..<W]) [0..<H]))
          default_epsilon) [0..<B])) [1..<N]))"
proof -
  have N0: "0 < N"
    using nc(2) by simp
  show ?thesis
    unfolding batch_dice_hard_masks [OF assms]
    by (rule multiclass_dice_coeff_channels [OF N0]) (simp_all only: pixel_rows_length)
qed

lemma evaluate_batches:
  assumes "snd (evaluate n dl) = Inr (score, loss)"
  shows "\<exists>rs. map (evaluate_batch (net_eval n)) dl = map Inr rs
      \<and> score = sum_list (map fst rs) / real (max (length dl) 1)
      \<and> (\<forall>(b, r) \<in> set (zip dl rs). \<exists>mask_pred.
            call_net (net_eval n) (image_b b) = Inr mask_pred
          \<and> batch_dice (net_eval n) mask_pred (mask_b b) = Inr (fst r))"
proof -
  let ?m = "net_eval n"
  obtain rs where rs: "map (evaluate_batch ?m) dl = map Inr rs"
      "score = sum_list (map fst rs) / real (max (length dl) 1)"
    using evaluate_mean [OF assms] by blast
  have each: "\<exists>mask_pred. call_net ?m (image_b b) = Inr mask_pred
          \<and> batch_dice ?m mask_pred (mask_b b) = Inr (fst r)"
    if br: "(b, r) \<in> set (zip dl rs)" for b r
  proof -
    from br obtain i where i: "i < length dl" "i < length rs" "dl ! i = b" "rs ! i = r"
      by (auto simp: in_set_zip)
    have "map (evaluate_batch ?m) dl ! i = map Inr rs ! i"
      by (simp only: rs(1))
    with i have "evaluate_batch ?m b = Inr (fst r, snd r)"
      by simp
    from evaluate_batch_parts [OF this] show ?thesis
      by blast
  qed
  from rs each show ?thesis
    by blast
qed

text \<open>
  C3. When \<open>evaluate\<close> returns, its score is the sum over the batches of the value of
  \<open>batch_dice\<close> (lines 45 to 56) on the model's output, divided by the batch count (or
  1). For a model of \<open>N > 1\<close> classes, an output of shape \<open>[B, N, H, W]\<close> and labels of
  shape \<open>[B, H, W]\<close> within \<open>[0, N)\<close>, that value is \<open>multiclass_dice_coeff\<close> with
  \<open>reduce_batch_first\<close> false on two hard masks of shape \<open>[B, N - 1, H, W]\<close>: their
  channels are the classes \<open>k = 1, \<dots>, N - 1\<close> (class 0, the background, is left out),
  the predicted mask is 1 at pixel \<open>(y, x)\<close> of item \<open>i\<close> exactly when the first maximum
  of the \<open>N\<close> class scores of that pixel is at class \<open>k\<close>, and the true mask is 1 exactly
  when the pixel is labelled \<open>k\<close>. With the Dice module of the specification the value
  is the mean over the classes \<open>1, \<dots>, N - 1\<close> of the mean over the batch items of the
  Dice value of the two indicator lists. For a one-class model with labels in \<open>[0, 1]\<close>
  the value is \<open>dice_coeff\<close> with \<open>reduce_batch_first\<close> false on the mask that is 1 where
  the sigmoid of the output exceeds 0.5; the mask keeps the shape of the output, as line
  47 applies no squeeze.
\<close>

theorem dice_score_on_hard_masks:
  "(snd (evaluate n dl) = Inr (score, loss) \<longrightarrow>
      (\<exists>rs. map (evaluate_batch (net_eval n)) dl = map Inr rs
         \<and> score = sum_list (map fst rs) / real (max (length dl) 1)
         \<and> (\<forall>(b, r) \<in> set (zip dl rs). \<exists>mask_pred.
               call_net (net_eval n) (image_b b) = Inr mask_pred
             \<and> batch_dice (net_eval n) mask_pred (mask_b b) = Inr (fst r))))
   \<and> (n_classes m = int N \<and> 2 \<le> N \<and> shape mask_pred = [B, N, H, W]
        \<and> shape mask_true = [B, H, W] \<and> length (data mask_true) = B * H * W
        \<and> data mask_true \<noteq> [] \<and> (\<forall>l \<in> set (data mask_true). 0 \<le> l \<and> l < int N) \<longrightarrow>
      batch_dice m mask_pred mask_true =
        multiclass_dice_coeff
          \<lparr>shape = [B, N - 1, H, W],
           data = concat (map (\<lambda>i. concat (map (\<lambda>k. concat (map (\<lambda>y. map (\<lambda>x.
                    if argmax_list (map (\<lambda>c. data mask_pred ! (((i * N + c) * H + y) * W + x))
                         [0..<N]) = k
                    then 1 else 0)
                  [0..<W]) [0..<H])) [1..<N])) [0..<B])\<rparr>
          \<lparr>shape = [B, N - 1, H, W],
           data = concat (map (\<lambda>i. concat (map (\<lambda>k. concat (map (\<lambda>y. map (\<lambda>x.
                    if data mask_true ! ((i * H + y) * W + x) = int k then 1 else 0)
                  [0..<W]) [0..<H])) [1..<N])) [0..<B])\<rparr>
          False default_epsilon
      \<and> batch_dice m mask_pred mask_true =
        Inr (mean (map (\<lambda>k. mean (map (\<lambda>i. dice_value
            (concat (map (\<lambda>y. map (\<lambda>x.
               if argmax_list (map (\<lambda>c. data mask_pred ! (((i * N + c) * H + y) * W + x))
                    [0..<N]) = k
               then 1 else 0) [0..<W]) [0..<H]))
            (concat (map (\<lambda>y. map (\<lambda>x.
               if data mask_true ! ((i * H + y) * W + x) = int k then 1 else 0)
             [0..<W]) [0..<H]))
            default_epsilon) [0..<B])) [1..<N])))
   \<and> (n_classes m = 1 \<and> data mask_true \<noteq> []
        \<and> (\<forall>l \<in> set (data mask_true). 0 \<le> l \<and> l \<le> 1) \<longrightarrow>
      batch_dice m mask_pred mask_true =
        dice_coeff (tmap (\<lambda>x. if 1 / 2 < sigmoid x then 1 else 0) mask_pred)
          (to_float mask_true) False default_epsilon)"
proof (intro conjI impI)
  assume "snd (evaluate n dl) = Inr (score, loss)"
  then show "\<exists>rs. map (evaluate_batch (net_eval n)) dl = map Inr rs
         \<and> score = sum_list (map fst rs) / real (max (length dl) 1)
         \<and> (\<forall>(b, r) \<in> set (zip dl rs). \<exists>mask_pred.
               call_net (net_eval n) (image_b b) = Inr mask_pred
             \<and> batch_dice (net_eval n) mask_pred (mask_b b) = Inr (fst r))"
    by (rule evaluate_batches)
next
  assume a: "n_classes m = int N \<and> 2 \<le> N \<and> shape mask_pred = [B, N, H, W]
        \<and> shape mask_true = [B, H, W] \<and> length (data mask_true) = B * H * W
        \<and> data mask_true \<noteq> [] \<and> (\<forall>l \<in> set (data mask_true). 0 \<le> l \<and> l < int N)"
  then have h: "n_classes m = int N" "2 \<le> N" "shape mask_pred = [B, N, H, W]"
      "shape mask_true = [B, H, W]" "length (data mask_true) = B * H * W"
      "data mask_true \<noteq> []" "\<forall>l \<in> set (data mask_true). 0 \<le> l \<and> l < int N"
    by blast+
  show "batch_dice m mask_pred mask_true =
        multiclass_dice_coeff
          \<lparr>shape = [B, N - 1, H, W],
           data = concat (map (\<lambda>i. concat (map (\<lambda>k. concat (map (\<lambda>y. map (\<lambda>x.
                    if argmax_list (map (\<lambda>c. data mask_pred ! (((i * N + c) * H + y) * W + x))
                         [0..<N]) = k
                    then 1 else 0)
                  [0..<W]) [0..<H])) [1..<N])) [0..<B])\<rparr>
          \<lparr>shape = [B, N - 1, H, W],
           data = concat (map (\<lambda>i. concat (map (\<lambda>k. concat (map (\<lambda>y. map (\<lambda>x.
                    if data mask_true ! ((i * H + y) * W + x) = int k then 1 else 0)
                  [0..<W]) [0..<H])) [1..<N])) [0..<B])\<rparr>
          False default_epsilon"
    by (rule batch_dice_hard_masks [OF h])
  show "batch_dice m mask_pred mask_true =
        Inr (mean (map (\<lambda>k. mean (map (\<lambda>i. dice_value
            (concat (map (\<lambda>y. map (\<lambda>x.
               if argmax_list (map (\<lambda>c. data mask_pred ! (((i * N + c) * H + y) * W + x))
                    [0..<N]) = k
               then 1 else 0) [0..<W]) [0..<H]))
            (concat (map (\<lambda>y. map (\<lambda>x.
               if data mask_true ! ((i * H + y) * W + x) = int k then 1 else 0)
             [0..<W]) [0..<H]))
            default_epsilon) [0..<B])) [1..<N]))"
    by (rule batch_dice_hard_value [OF h])
next
  assume "n_classes m = 1 \<and> data mask_true \<noteq> []
        \<and> (\<forall>l \<in> set (data mask_true). 0 \<le> l \<and> l \<le> 1)"
  then show "batch_dice m mask_pred mask_true =
        dice_coeff (tmap (\<lambda>x. if 1 / 2 < sigmoid x then 1 else 0) mask_pred)
          (to_float mask_true) False default_epsilon"
    by (intro batch_dice_binary_in_range) blast+
qed

lemma imperfect_logits:
  "call_net (net_eval example_net) (image_b imperfect_batch)
     = Inr \<lparr>shape = [1, 2, 1, 2], data = [- 3, 1, 3, - 1]\<rparr>"
  by (simp add: call_net_def net_eval_def example_net_def two_channel_logits_def
      imperfect_batch_def batch_items_def chunks_def upt_conv_Cons)

theorem dice_score_on_hard_masks_witness:
  "(\<exists>loss rs. snd (evaluate example_net [example_batch]) = Inr (1, loss)
      \<and> map (evaluate_batch (net_eval example_net)) [example_batch] = map Inr rs
      \<and> (1::real) = sum_list (map fst rs) / real (max (length [example_batch]) 1))
   \<and> call_net (net_eval example_net) (image_b imperfect_batch)
       = Inr \<lparr>shape = [1, 2, 1, 2], data = [- 3, 1, 3, - 1]\<rparr>
   \<and> batch_dice (net_eval example_net) \<lparr>shape = [1, 2, 1, 2], data = [- 3, 1, 3, - 1]\<rparr>
       (mask_b imperfect_batch) = Inr (2000001 / 3000001)
   \<and> batch_dice (net_eval example_binary_net) \<lparr>shape = [1, 1, 1, 2], data = [3, - 1]\<rparr>
       (mask_b example_batch) = Inl ShapeError
   \<and> batch_dice (net_eval example_binary_net) \<lparr>shape = [1, 1, 2], data = [3, - 1]\<rparr>
       (mask_b example_batch) = Inr 1"
proof -
  obtain l1 where l1: "snd (evaluate example_net [example_batch]) = Inr (1, l1)"
    using good_run by blast
  from dice_score_on_hard_masks [of example_net "[example_batch]" 1 l1] l1 have a:
    "\<exists>loss rs. snd (evaluate example_net [example_batch]) = Inr (1, loss)
      \<and> map (evaluate_batch (net_eval example_net)) [example_batch] = map Inr rs
      \<and> (1::real) = sum_list (map fst rs) / real (max (length [example_batch]) 1)"
    by blast
  note multi = dice_score_on_hard_masks [of example_net "[]" 0 0 "net_eval example_net" 2
      "\<lparr>shape = [1, 2, 1, 2], data = [- 3, 1, 3, - 1]\<rparr>" 1 1 2 "mask_b imperfect_batch",
      THEN conjunct2, THEN conjunct1, THEN mp, THEN conjunct2]
  have b: "batch_dice (net_eval example_net) \<lparr>shape = [1, 2, 1, 2], data = [- 3, 1, 3, - 1]\<rparr>
       (mask_b imperfect_batch) = Inr (2000001 / 3000001)"
    by (rule trans [OF multi])
      (simp_all add: net_eval_def example_net_def imperfect_batch_def upt_conv_Cons
        argmax_list_def mean_def dice_value_def default_epsilon_def)
  note binary = dice_score_on_hard_masks [of example_net "[]" 0 0 "net_eval example_binary_net"
      0 _ 0 0 0 "mask_b example_batch", THEN conjunct2, THEN conjunct2, THEN mp]
  have c: "batch_dice (net_eval example_binary_net) \<lparr>shape = [1, 1, 1, 2], data = [3, - 1]\<rparr>
       (mask_b example_batch) = Inl ShapeError"
    by (rule trans [OF binary])
      (simp_all add: net_eval_def example_binary_net_def example_batch_def dice_coeff_def
        tmap_def to_float_def)
  have d: "batch_dice (net_eval example_binary_net) \<lparr>shape = [1, 1, 2], data = [3, - 1]\<rparr>
       (mask_b example_batch) = Inr 1"
    by (rule trans [OF binary])
      (simp_all add: net_eval_def example_binary_net_def example_batch_def dice_coeff_def
        tmap_def to_float_def dice_same_shape_def batch_items_def chunks_def upt_conv_Cons
        mean_def dice_value_def default_epsilon_def sigmoid_gt_half_mult)
  from a imperfect_logits b c d show ?thesis
    by (intro conjI)
qed

subsection \<open>The empty dataloader\<close>

text \<open>
  C5. On a dataloader of zero batches \<open>evaluate\<close> raises nothing and returns the score 0
  and the loss 0. Dividing by the batch count itself would raise there: the division
  \<open>py_div\<close> of 0 by the length of the empty dataloader is a ZeroDivisionError. Line 59
  divides by \<open>max num_val_batches 1\<close> instead: whenever the loop ends with the sums
  \<open>d\<close> and \<open>l\<close>, the result is \<open>d\<close> and \<open>l\<close> divided by the batch count, or by 1 when the
  batch count is 0.
\<close>

theorem evaluate_empty_dataloader:
  "evaluate n [] = (net_train (net_eval n), Inr (0, 0))
   \<and> py_div 0 (length ([] :: batch list)) = Inl ZeroDivisionError
   \<and> (\<forall>dl d l. evaluate_loop (net_eval n) dl (0, 0) = Inr (d, l) \<longrightarrow>
         snd (evaluate n dl)
           = Inr (d / real (if length dl = 0 then 1 else length dl),
                  l / real (if length dl = 0 then 1 else length dl)))"
proof (intro conjI allI impI)
  show "evaluate n [] = (net_train (net_eval n), Inr (0, 0))"
    by (simp add: evaluate_def py_div_def)
  show "py_div 0 (length ([] :: batch list)) = Inl ZeroDivisionError"
    by (simp add: py_div_def)
next
  fix dl d l
  assume loop: "evaluate_loop (net_eval n) dl (0, 0) = Inr (d, l)"
  have "max (length dl) 1 = (if length dl = 0 then 1 else length dl)"
    by (cases "length dl") simp_all
  then show "snd (evaluate n dl)
           = Inr (d / real (if length dl = 0 then 1 else length dl),
                  l / real (if length dl = 0 then 1 else length dl))"
    by (simp add: evaluate_def Let_def py_div_def loop)
qed

theorem evaluate_empty_dataloader_witness:
  "evaluate example_net [] = (net_train (net_eval example_net), Inr (0, 0))
   \<and> (\<exists>loss. snd (evaluate example_net [example_batch]) = Inr (1, loss))"
proof -
  obtain loss where "evaluate_batch (net_eval example_net) example_batch = Inr (1, loss)"
    using good_batch by blast
  then have loop: "evaluate_loop (net_eval example_net) [example_batch] (0, 0) = Inr (1, loss)"
    by simp
  from evaluate_empty_dataloader [of example_net] loop
  have "evaluate example_net [] = (net_train (net_eval example_net), Inr (0, 0))"
    and "snd (evaluate example_net [example_batch]) = Inr (1, loss)"
    by auto
  then show ?thesis by blast
qed

subsection \<open>Qualitative results on small datasets\<close>

text \<open>
  C9. On a dataset of fewer than 6 items the step \<^verbatim>\<open>len_dataset//6\<close> of line 32 is 0,
  \<^verbatim>\<open>range\<close> raises a ValueError, and \<open>qualitative_results\<close> ends with that error and the
  directories and files as they were: no image is written. The step is 0 exactly for
  the datasets of fewer than 6 items.
\<close>

theorem qualitative_results_needs_six_items:
  "(length dataset < 6 \<longrightarrow> qualitative_results w dataset p model s = (s, Inl ValueError))
   \<and> (py_range 0 (length dataset) (length dataset div 6) = Inl ValueError
        \<longleftrightarrow> length dataset < 6)"
proof (intro conjI impI)
  assume "length dataset < 6"
  then show "qualitative_results w dataset p model s = (s, Inl ValueError)"
    by (simp add: qualitative_results_def py_range_def)
next
  have "length dataset div 6 = 0 \<longleftrightarrow> length dataset < 6"
    by (simp add: div_eq_0_iff)
  then show "py_range 0 (length dataset) (length dataset div 6) = Inl ValueError
        \<longleftrightarrow> length dataset < 6"
    by (simp add: py_range_def)
qed

theorem qualitative_results_needs_six_items_witness:
  "qualitative_results example_world [example_sample] [''results'', ''train''] example_net
     empty_sys = (empty_sys, Inl ValueError)
   \<and> files (fst (qualitative_results example_world [example_sample] [''results'', ''train'']
        example_net empty_sys)) = Map.empty"
  using qualitative_results_needs_six_items
    [of "[example_sample]" example_world "[''results'', ''train'']" example_net empty_sys]
  by (simp add: empty_sys_def)

subsection \<open>The dataset fallback\<close>

lemma caught_iff:
  "caught e \<longleftrightarrow> (\<exists>msg. e = AssertionError msg) \<or> e = RuntimeError \<or> e = IndexError"
  by (cases e) (simp_all add: caught_def)

text \<open>
  C8. When \<^verbatim>\<open>CarvanaDataset\<close> raises an AssertionError, a RuntimeError or an IndexError,
  the dataset is what \<^verbatim>\<open>BasicDataset\<close> gives on the same directories and scale (an
  error of \<^verbatim>\<open>BasicDataset\<close> included); every other error of \<^verbatim>\<open>CarvanaDataset\<close> is the
  error of the construction. Nothing else is recovered: an error of a dataset
  construction is the error of the block of lines 79 to 104, and an error of the model
  loading, of that block or of one of the three \<open>evaluate\<close> calls ends the script with that
  error and nothing printed or written.
\<close>

theorem carvana_fallback_only_recovery:
  "(CarvanaDataset w imgs masks scale = Inl e
      \<and> ((\<exists>msg. e = AssertionError msg) \<or> e = RuntimeError \<or> e = IndexError) \<longrightarrow>
      load_or_fallback w imgs masks scale = BasicDataset w imgs masks scale)
   \<and> (CarvanaDataset w imgs masks scale = Inl e
      \<and> \<not> ((\<exists>msg. e = AssertionError msg) \<or> e = RuntimeError \<or> e = IndexError) \<longrightarrow>
      load_or_fallback w imgs masks scale = Inl e)
   \<and> (CarvanaDataset w imgs masks scale = Inr ds \<longrightarrow>
      load_or_fallback w imgs masks scale = Inr ds)
   \<and> (default_flag a \<and> load_or_fallback w dir_img dir_mask img_scale = Inl e \<longrightarrow>
      build_sets w a = Inl e)
   \<and> (\<not> default_flag a
      \<and> (load_or_fallback w dir_train_img dir_train_mask img_scale = Inl e
         \<or> (\<exists>tr. load_or_fallback w dir_train_img dir_train_mask img_scale = Inr tr)
            \<and> (load_or_fallback w dir_val_img dir_val_mask img_scale = Inl e
               \<or> (\<exists>va. load_or_fallback w dir_val_img dir_val_mask img_scale = Inr va)
                  \<and> load_or_fallback w dir_test_img dir_test_mask img_scale = Inl e)) \<longrightarrow>
      build_sets w a = Inl e)
   \<and> (load_net w a = Inl e \<longrightarrow> main w a s = (s, Inl e))
   \<and> (load_net w a = Inr n0 \<and> build_sets w a = Inl e \<longrightarrow> main w a s = (s, Inl e))
   \<and> (load_net w a = Inr n0 \<and> build_sets w a = Inr sets
      \<and> snd (run_evaluations (net_eval n0) (build_loaders sets)) = Inl e \<longrightarrow>
      main w a s = (s, Inl e))"
proof (intro conjI impI)
  assume "CarvanaDataset w imgs masks scale = Inl e
      \<and> ((\<exists>msg. e = AssertionError msg) \<or> e = RuntimeError \<or> e = IndexError)"
  then show "load_or_fallback w imgs masks scale = BasicDataset w imgs masks scale"
    by (simp add: load_or_fallback_def caught_iff)
next
  assume "CarvanaDataset w imgs masks scale = Inl e
      \<and> \<not> ((\<exists>msg. e = AssertionError msg) \<or> e = RuntimeError \<or> e = IndexError)"
  then show "load_or_fallback w imgs masks scale = Inl e"
    by (simp add: load_or_fallback_def caught_iff)
next
  assume "CarvanaDataset w imgs masks scale = Inr ds"
  then show "load_or_fallback w imgs masks scale = Inr ds"
    by (simp add: load_or_fallback_def)
next
  assume "default_flag a \<and> load_or_fallback w dir_img dir_mask img_scale = Inl e"
  then show "build_sets w a = Inl e"
    by (simp add: build_sets_def)
next
  assume "\<not> default_flag a
      \<and> (load_or_fallback w dir_train_img dir_train_mask img_scale = Inl e
         \<or> (\<exists>tr. load_or_fallback w dir_train_img dir_train_mask img_scale = Inr tr)
            \<and> (load_or_fallback w dir_val_img dir_val_mask img_scale = Inl e
               \<or> (\<exists>va. load_or_fallback w dir_val_img dir_val_mask img_scale = Inr va)
                  \<and> load_or_fallback w dir_test_img dir_test_mask img_scale = Inl e))"
  then show "build_sets w a = Inl e"
    by (auto simp: build_sets_def)
next
  assume "load_net w a = Inl e"
  then show "main w a s = (s, Inl e)"
    by (simp add: main_def)
next
  assume "load_net w a = Inr n0 \<and> build_sets w a = Inl e"
  then show "main w a s = (s, Inl e)"
    by (simp add: main_def)
next
  assume a: "load_net w a = Inr n0 \<and> build_sets w a = Inr sets
      \<and> snd (run_evaluations (net_eval n0) (build_loaders sets)) = Inl e"
  obtain n' r where r: "run_evaluations (net_eval n0) (build_loaders sets) = (n', r)"
    by (cases "run_evaluations (net_eval n0) (build_loaders sets)")
  with a have "r = Inl e" by simp
  with a r show "main w a s = (s, Inl e)"
    by (simp add: main_def)
qed


lemmas world_defs = example_world_def default_args_def example_sample_def empty_sys_def

theorem carvana_fallback_only_recovery_witness:
  "load_or_fallback example_world dir_img dir_mask img_scale = Inr [example_sample]
   \<and> load_or_fallback
        (example_world\<lparr>CarvanaDataset := \<lambda>imgs masks scale. Inl (OtherError ''FileNotFoundError'')\<rparr>)
        dir_img dir_mask img_scale = Inl (OtherError ''FileNotFoundError'')
   \<and> main
        (example_world\<lparr>CarvanaDataset := \<lambda>imgs masks scale. Inl (OtherError ''FileNotFoundError'')\<rparr>)
        default_args empty_sys = (empty_sys, Inl (OtherError ''FileNotFoundError''))"
proof -
  let ?w = "example_world\<lparr>CarvanaDataset :=
      \<lambda>imgs masks scale. Inl (OtherError ''FileNotFoundError'')\<rparr>"
  note t1 = carvana_fallback_only_recovery [of example_world dir_img dir_mask img_scale
      IndexError "[]" default_args empty_sys example_net "([], [], [])"]
  note t2 = carvana_fallback_only_recovery [of ?w dir_img dir_mask img_scale
      "OtherError ''FileNotFoundError''" "[]" default_args empty_sys example_net "([], [], [])"]
  have a: "load_or_fallback example_world dir_img dir_mask img_scale = Inr [example_sample]"
    using t1 [THEN conjunct1] by (simp add: example_world_def)
  have b: "load_or_fallback ?w dir_img dir_mask img_scale = Inl (OtherError ''FileNotFoundError'')"
    using t2 [THEN conjunct2, THEN conjunct1] by (simp add: example_world_def)
  have "build_sets ?w default_args = Inl (OtherError ''FileNotFoundError'')"
    using t2 [THEN conjunct2, THEN conjunct2, THEN conjunct2, THEN conjunct1] b
    by (simp add: default_args_def)
  then have c: "main ?w default_args empty_sys = (empty_sys, Inl (OtherError ''FileNotFoundError''))"
    using t2 [THEN conjunct2, THEN conjunct2, THEN conjunct2, THEN conjunct2, THEN conjunct2,
        THEN conjunct2, THEN conjunct1]
    by (simp add: example_world_def)
  from a b c show ?thesis
    by (intro conjI)
qed

subsection \<open>The default split\<close>






lemma example_sets:
  "build_sets example_world default_args = Inr ([example_sample], [], [])"
  by (simp add: build_sets_def load_or_fallback_def caught_def random_split_def Subset_def
      world_defs Let_def)

lemma example_loaders:
  "build_loaders ([example_sample], [], []) = ([example_batch], [], [])"
  by (simp add: build_loaders_def DataLoader_def chunks_def batch_size_def default_collate_def
      stack_def example_sample_def example_batch_def)

lemma example_evaluations:
  "\<exists>n' loss. run_evaluations (net_eval example_net) ([example_batch], [], [])
     = (n', Inr ((1, loss), (0, 0), (0, 0)))"
proof -
  obtain loss where "evaluate_batch (net_eval example_net) example_batch = Inr (1, loss)"
    using good_batch by blast
  then have "evaluate_batch (net_eval (net_eval example_net)) example_batch = Inr (1, loss)"
    by (simp add: net_eval_def)
  then show ?thesis
    by (simp add: run_evaluations_def evaluate_eq)
qed



subsection \<open>The scores file\<close>

lemma report_fails: "report w scores s = (s, Inl TypeError)"
  by (cases scores) (simp add: report_def tuple_format_def split: prod.split)

lemma main_fails: "\<exists>e. main w a s = (s, Inl e)"
proof (cases "load_net w a")
  case (Inl e)
  then show ?thesis by (simp add: main_def)
next
  case n0: (Inr n0)
  show ?thesis
  proof (cases "build_sets w a")
    case (Inl e)
    with n0 show ?thesis by (simp add: main_def)
  next
    case sets: (Inr sets)
    obtain n' r where r: "run_evaluations (net_eval n0) (build_loaders sets) = (n', r)"
      by (cases "run_evaluations (net_eval n0) (build_loaders sets)")
    show ?thesis
      using n0 sets r by (cases r) (simp_all add: main_def report_fails)
  qed
qed

text \<open>
  C7, the claim fails on the code. \<open>evaluate\<close> returns the pair of line 59, and line 120
  formats it with \<^verbatim>\<open>:.4f\<close>, which a tuple rejects with a TypeError: the report of lines
  120 to 150 ends with that error before anything is printed, and so does the script
  whenever the three \<open>evaluate\<close> calls return. The script never returns normally and
  never changes \<^verbatim>\<open>results/scores.csv\<close>.
\<close>

theorem scores_csv_never_written:
  "report w scores s = (s, Inl TypeError)
   \<and> (load_net w a = Inr n0 \<and> build_sets w a = Inr sets
      \<and> run_evaluations (net_eval n0) (build_loaders sets) = (n', Inr scores) \<longrightarrow>
      main w a s = (s, Inl TypeError))
   \<and> (\<exists>e. main w a s = (s, Inl e))
   \<and> files (fst (main w a s)) [''results'', ''scores.csv''] = files s [''results'', ''scores.csv'']"
proof (intro conjI impI)
  show "report w scores s = (s, Inl TypeError)"
    by (rule report_fails)
  show "\<exists>e. main w a s = (s, Inl e)"
    by (rule main_fails)
  then show "files (fst (main w a s)) [''results'', ''scores.csv'']
      = files s [''results'', ''scores.csv'']"
    by auto
next
  assume "load_net w a = Inr n0 \<and> build_sets w a = Inr sets
      \<and> run_evaluations (net_eval n0) (build_loaders sets) = (n', Inr scores)"
  then show "main w a s = (s, Inl TypeError)"
    by (simp add: main_def report_fails)
qed

theorem scores_csv_never_written_witness:
  "main example_world default_args empty_sys = (empty_sys, Inl TypeError)
   \<and> files (fst (main example_world default_args empty_sys)) [''results'', ''scores.csv'']
       = None"
proof -
  obtain n' loss where r: "run_evaluations (net_eval example_net) ([example_batch], [], [])
     = (n', Inr ((1, loss), (0, 0), (0, 0)))"
    using example_evaluations by blast
  have l: "load_net example_world default_args = Inr example_net"
    by (simp add: example_world_def)
  note t = scores_csv_never_written [of example_world "((1, loss), (0, 0), (0, 0))" empty_sys
      default_args example_net "([example_sample], [], [])" n']
  have m: "main example_world default_args empty_sys = (empty_sys, Inl TypeError)"
    using t [THEN conjunct2, THEN conjunct1] l example_sets example_loaders r by simp
  then show ?thesis
    by (simp add: empty_sys_def)
qed

subsection \<open>The Dice coefficient and the Dice loss\<close>

lemma sum_list_nth: "sum_list xs = (\<Sum>i<length xs. xs ! i)" for xs :: "real list"
  by (simp add: sum_list_sum_nth atLeast0LessThan)

lemma sum_list_map2_nth:
  fixes xs ys :: "real list"
  assumes "length xs = length ys"
  shows "sum_list (map2 (*) xs ys) = (\<Sum>i<length xs. xs ! i * ys ! i)"
  using assms by (simp add: sum_list_sum_nth atLeast0LessThan)

lemma dice_value_sums:
  assumes "length xs = n" "length ys = n"
  shows "dice_value xs ys eps =
     (2 * (\<Sum>i<n. xs ! i * ys ! i) + eps) / ((\<Sum>i<n. xs ! i) + (\<Sum>i<n. ys ! i) + eps)"
proof -
  have "sum_list (map2 (*) xs ys) = (\<Sum>i<n. xs ! i * ys ! i)"
    using sum_list_map2_nth [of xs ys] assms by simp
  moreover have "sum_list xs = (\<Sum>i<n. xs ! i)" "sum_list ys = (\<Sum>i<n. ys ! i)"
    using sum_list_nth [of xs] sum_list_nth [of ys] assms by simp_all
  ultimately show ?thesis
    by (simp only: dice_value_def)
qed

lemma chunk_length:
  assumes "b < B" "length xs = B * P"
  shows "length (take P (drop (b * P) xs)) = P"
proof -
  have "Suc b * P \<le> B * P"
    using assms(1) by (intro mult_le_mono1) simp
  then show ?thesis
    using assms(2) by simp
qed

lemma chunk_nth:
  assumes "b < B" "length xs = B * P" "j < P"
  shows "take P (drop (b * P) xs) ! j = xs ! (b * P + j)"
proof -
  have "Suc b * P \<le> B * P"
    using assms(1) by (intro mult_le_mono1) simp
  then have "b * P + j < length xs"
    using assms(2,3) by simp
  then show ?thesis
    using assms(3) by simp
qed

lemma dice_value_chunk:
  assumes "b < B" "length xs = B * P" "length ys = B * P"
  shows "dice_value (take P (drop (b * P) xs)) (take P (drop (b * P) ys)) eps =
     (2 * (\<Sum>j<P. xs ! (b * P + j) * ys ! (b * P + j)) + eps) /
     ((\<Sum>j<P. xs ! (b * P + j)) + (\<Sum>j<P. ys ! (b * P + j)) + eps)"
proof -
  let ?x = "take P (drop (b * P) xs)" and ?y = "take P (drop (b * P) ys)"
  have x: "?x ! j = xs ! (b * P + j)" if "j < P" for j
    using assms(1,2) that by (rule chunk_nth)
  have y: "?y ! j = ys ! (b * P + j)" if "j < P" for j
    using assms(1,3) that by (rule chunk_nth)
  have s1: "(\<Sum>j<P. ?x ! j * ?y ! j) = (\<Sum>j<P. xs ! (b * P + j) * ys ! (b * P + j))"
    by (rule sum.cong [OF refl]) (simp only: lessThan_iff x y)
  have s2: "(\<Sum>j<P. ?x ! j) = (\<Sum>j<P. xs ! (b * P + j))"
    by (rule sum.cong [OF refl]) (simp only: lessThan_iff x)
  have s3: "(\<Sum>j<P. ?y ! j) = (\<Sum>j<P. ys ! (b * P + j))"
    by (rule sum.cong [OF refl]) (simp only: lessThan_iff y)
  have "dice_value ?x ?y eps =
     (2 * (\<Sum>j<P. ?x ! j * ?y ! j) + eps) / ((\<Sum>j<P. ?x ! j) + (\<Sum>j<P. ?y ! j) + eps)"
    by (rule dice_value_sums) (rule chunk_length [OF assms(1,2)], rule chunk_length [OF assms(1,3)])
  then show ?thesis
    by (simp only: s1 s2 s3)
qed

lemma mean_upt: "mean (map f [0..<n]) = (\<Sum>b<n. f b) / real n"
  by (simp add: mean_def sum_list_sum_nth atLeast0LessThan)


lemma dice_coeff_reduce_first:
  assumes "shape pred = shape target" "wf_tensor pred" "wf_tensor target"
  shows "dice_coeff pred target True eps =
     Inr ((2 * (\<Sum>i<length (data pred). data pred ! i * data target ! i) + eps) /
          ((\<Sum>i<length (data pred). data pred ! i)
           + (\<Sum>i<length (data pred). data target ! i) + eps))"
proof -
  have "length (data target) = length (data pred)"
    using assms by (simp add: wf_tensor_def)
  then have "dice_value (data pred) (data target) eps =
     (2 * (\<Sum>i<length (data pred). data pred ! i * data target ! i) + eps) /
          ((\<Sum>i<length (data pred). data pred ! i)
           + (\<Sum>i<length (data pred). data target ! i) + eps)"
    by (intro dice_value_sums) simp_all
  then show ?thesis
    by (simp add: dice_coeff_def dice_same_shape_def assms(1))
qed

lemma dice_coeff_per_item:
  assumes "shape pred = shape target" "wf_tensor pred" "wf_tensor target"
    "shape pred = B # rest" "P = prod_list rest"
  shows "dice_coeff pred target False eps =
     Inr ((\<Sum>b<B. (2 * (\<Sum>j<P. data pred ! (b * P + j) * data target ! (b * P + j)) + eps) /
                   ((\<Sum>j<P. data pred ! (b * P + j))
                    + (\<Sum>j<P. data target ! (b * P + j)) + eps)) / real B)"
proof -
  let ?f = "\<lambda>b. (2 * (\<Sum>j<P. data pred ! (b * P + j) * data target ! (b * P + j)) + eps) /
                   ((\<Sum>j<P. data pred ! (b * P + j))
                    + (\<Sum>j<P. data target ! (b * P + j)) + eps)"
  have st: "shape target = B # rest"
    using assms(1,4) by simp
  have lp: "length (data pred) = B * P"
    using assms(2) by (simp add: wf_tensor_def assms(4,5))
  have lt: "length (data target) = B * P"
    using assms(3) by (simp add: wf_tensor_def st assms(5))
  have ip: "batch_items pred = map (\<lambda>b. take P (drop (b * P) (data pred))) [0..<B]"
    by (simp add: batch_items_def chunks_def assms(4,5))
  have it: "batch_items target = map (\<lambda>b. take P (drop (b * P) (data target))) [0..<B]"
    by (simp add: batch_items_def chunks_def st assms(5))
  have "map2 (\<lambda>p t. dice_value p t eps) (batch_items pred) (batch_items target)
      = map (\<lambda>b. dice_value (take P (drop (b * P) (data pred)))
                    (take P (drop (b * P) (data target))) eps) [0..<B]"
    unfolding ip it by (simp add: zip_map_map zip_same_conv_map o_def)
  also have "\<dots> = map ?f [0..<B]"
    by (rule map_upt_cong) (rule dice_value_chunk [OF _ lp lt])
  finally have "mean (map2 (\<lambda>p t. dice_value p t eps) (batch_items pred) (batch_items target))
      = (\<Sum>b<B. ?f b) / real B"
    by (simp only: mean_upt)
  then show ?thesis
    by (simp only: dice_coeff_def dice_same_shape_def assms(1) if_False simp_thms)
qed

text \<open>
  C2. For two tensors of one shape whose entries fill the shape, and a stability
  constant \<open>eps\<close>: with \<open>reduce_batch_first\<close> true, \<open>dice_coeff\<close> is
  \<open>(2 * I + eps) / (S\<^sub>p + S\<^sub>t + eps)\<close> where \<open>I\<close> is the sum over all entries of the
  products and \<open>S\<^sub>p\<close>, \<open>S\<^sub>t\<close> are the sums over all entries of the two tensors; with
  \<open>reduce_batch_first\<close> false and \<open>B\<close> batch items of \<open>P\<close> entries each, it is the
  arithmetic mean over the batch items \<open>b\<close> of that quotient taken over the entries
  \<open>b * P, \<dots>, b * P + P - 1\<close> of item \<open>b\<close>. Tensors of different shapes give the
  shape-mismatch error. The entries need not lie in \<open>[0, 1]\<close>.
\<close>

theorem dice_coeff_formula:
  "(shape pred = shape target \<and> wf_tensor pred \<and> wf_tensor target \<longrightarrow>
      dice_coeff pred target True eps =
        Inr ((2 * (\<Sum>i<length (data pred). data pred ! i * data target ! i) + eps) /
             ((\<Sum>i<length (data pred). data pred ! i)
              + (\<Sum>i<length (data pred). data target ! i) + eps)))
   \<and> (shape pred = shape target \<and> wf_tensor pred \<and> wf_tensor target
        \<and> shape pred = B # rest \<and> P = prod_list rest \<longrightarrow>
      dice_coeff pred target False eps =
        Inr ((\<Sum>b<B. (2 * (\<Sum>j<P. data pred ! (b * P + j) * data target ! (b * P + j)) + eps) /
                      ((\<Sum>j<P. data pred ! (b * P + j))
                       + (\<Sum>j<P. data target ! (b * P + j)) + eps)) / real B))
   \<and> (shape pred \<noteq> shape target \<longrightarrow>
      dice_coeff pred target reduce_batch_first eps = Inl ShapeError)"
proof (intro conjI impI)
  assume "shape pred = shape target \<and> wf_tensor pred \<and> wf_tensor target"
  then show "dice_coeff pred target True eps =
        Inr ((2 * (\<Sum>i<length (data pred). data pred ! i * data target ! i) + eps) /
             ((\<Sum>i<length (data pred). data pred ! i)
              + (\<Sum>i<length (data pred). data target ! i) + eps))"
    by (intro dice_coeff_reduce_first) blast+
next
  assume "shape pred = shape target \<and> wf_tensor pred \<and> wf_tensor target
        \<and> shape pred = B # rest \<and> P = prod_list rest"
  then show "dice_coeff pred target False eps =
        Inr ((\<Sum>b<B. (2 * (\<Sum>j<P. data pred ! (b * P + j) * data target ! (b * P + j)) + eps) /
                      ((\<Sum>j<P. data pred ! (b * P + j))
                       + (\<Sum>j<P. data target ! (b * P + j)) + eps)) / real B)"
    by (intro dice_coeff_per_item) blast+
next
  assume "shape pred \<noteq> shape target"
  then show "dice_coeff pred target reduce_batch_first eps = Inl ShapeError"
    by (simp add: dice_coeff_def)
qed

theorem dice_coeff_formula_witness:
  "dice_coeff \<lparr>shape = [2, 2], data = [1, 1, 0, 0]\<rparr> \<lparr>shape = [2, 2], data = [1, 1, 0, 0]\<rparr>
     True default_epsilon = Inr 1
   \<and> dice_coeff \<lparr>shape = [2, 2], data = [1, 1, 0, 0]\<rparr> \<lparr>shape = [2, 2], data = [0, 0, 1, 1]\<rparr>
     True default_epsilon = Inr (1 / 4000001)
   \<and> dice_coeff \<lparr>shape = [2, 2], data = [1, 1, 0, 0]\<rparr> \<lparr>shape = [2, 2], data = [1, 0, 0, 0]\<rparr>
     False default_epsilon = Inr ((2000001 / 3000001 + 1) / 2)"
proof -
  let ?p = "\<lparr>shape = [2, 2], data = [1, 1, 0, 0::real]\<rparr>"
  let ?t = "\<lparr>shape = [2, 2], data = [0, 0, 1, 1::real]\<rparr>"
  let ?u = "\<lparr>shape = [2, 2], data = [1, 0, 0, 0::real]\<rparr>"
  have a: "dice_coeff ?p ?p True default_epsilon = Inr 1"
    by (rule trans [OF dice_coeff_formula [of ?p ?p default_epsilon 2 "[2]" 2 True,
          THEN conjunct1, THEN mp]])
      (simp_all add: wf_tensor_def default_epsilon_def eval_nat_numeral)
  have b: "dice_coeff ?p ?t True default_epsilon = Inr (1 / 4000001)"
    by (rule trans [OF dice_coeff_formula [of ?p ?t default_epsilon 2 "[2]" 2 True,
          THEN conjunct1, THEN mp]])
      (simp_all add: wf_tensor_def default_epsilon_def eval_nat_numeral)
  have c: "dice_coeff ?p ?u False default_epsilon = Inr ((2000001 / 3000001 + 1) / 2)"
    by (rule trans [OF dice_coeff_formula [of ?p ?u default_epsilon 2 "[2]" 2 True,
          THEN conjunct2, THEN conjunct1, THEN mp]])
      (simp_all add: wf_tensor_def default_epsilon_def eval_nat_numeral)
  from a b c show ?thesis
    by (intro conjI)
qed


lemma batch_loss_parts:
  assumes "batch_loss n mask_pred mask_true = Inr l"
  shows "if n_classes n = 1
     then \<exists>sq c d. squeeze_1 mask_pred = Inr sq
          \<and> criterion_float n sq (to_float mask_true) = Inr c
          \<and> dice_coeff (F_sigmoid sq) (to_float mask_true) True default_epsilon = Inr d
          \<and> l = c + (1 - d)
     else \<exists>c sm oh d. criterion_long n mask_pred mask_true = Inr c
          \<and> F_softmax_1 mask_pred = Inr sm
          \<and> one_hot_mask mask_true (n_classes n) = Inr oh
          \<and> multiclass_dice_coeff sm oh True default_epsilon = Inr d
          \<and> l = c + (1 - d)"
proof (cases "n_classes n = 1")
  case True
  from assms obtain sq c dl where p: "squeeze_1 mask_pred = Inr sq"
      "criterion_float n sq (to_float mask_true) = Inr c"
      "dice_loss (F_sigmoid sq) (to_float mask_true) False = Inr dl" "l = c + dl"
    by (auto simp: batch_loss_def True bind_err_Inr_iff)
  from p(3) obtain d where
    "dice_coeff (F_sigmoid sq) (to_float mask_true) True default_epsilon = Inr d" "dl = 1 - d"
    by (auto simp: dice_loss_def bind_err_Inr_iff)
  with p True show ?thesis
    by auto
next
  case False
  from assms obtain c sm oh dl where p: "criterion_long n mask_pred mask_true = Inr c"
      "F_softmax_1 mask_pred = Inr sm" "one_hot_mask mask_true (n_classes n) = Inr oh"
      "dice_loss sm oh True = Inr dl" "l = c + dl"
    by (auto simp: batch_loss_def False bind_err_Inr_iff)
  from p(4) obtain d where
    "multiclass_dice_coeff sm oh True default_epsilon = Inr d" "dl = 1 - d"
    by (auto simp: dice_loss_def bind_err_Inr_iff)
  with p False show ?thesis
    by auto
qed

text \<open>
  C4. For an input and a target of one shape, \<open>dice_loss\<close> with the multiclass flag
  off is 1 minus \<open>dice_coeff\<close> with \<open>reduce_batch_first\<close> true, which is the Dice value
  of all the entries; with the flag on (and a class dimension) it is 1 minus
  \<open>multiclass_dice_coeff\<close> with \<open>reduce_batch_first\<close> true, the mean over the class
  channels of the Dice value of the channel's entries. An error of the coefficient is
  the error of the loss. In \<open>evaluate\<close> (lines 31 to 42) the loss of a batch is the
  criterion plus 1 minus that coefficient: of the sigmoid of the squeezed output and the
  float mask for one class, of the softmax of the output and the one-hot mask otherwise.
\<close>

theorem dice_loss_is_one_minus_dice:
  "(shape input = shape target \<longrightarrow>
      dice_loss input target False
        = Inr (1 - dice_value (data input) (data target) default_epsilon)
      \<and> dice_coeff input target True default_epsilon
        = Inr (dice_value (data input) (data target) default_epsilon))
   \<and> (shape input = shape target \<and> 2 \<le> length (shape input) \<longrightarrow>
      dice_loss input target True
        = Inr (1 - mean (map (\<lambda>k. dice_value (data (channel k input)) (data (channel k target))
                                   default_epsilon) [0..<n_channels input]))
      \<and> multiclass_dice_coeff input target True default_epsilon
        = Inr (mean (map (\<lambda>k. dice_value (data (channel k input)) (data (channel k target))
                               default_epsilon) [0..<n_channels input])))
   \<and> (dice_coeff input target True default_epsilon = Inl e \<longrightarrow>
      dice_loss input target False = Inl e)
   \<and> (multiclass_dice_coeff input target True default_epsilon = Inl e \<longrightarrow>
      dice_loss input target True = Inl e)
   \<and> (batch_loss n mask_pred mask_true = Inr l \<longrightarrow>
      (if n_classes n = 1
       then \<exists>sq c d. squeeze_1 mask_pred = Inr sq
            \<and> criterion_float n sq (to_float mask_true) = Inr c
            \<and> dice_coeff (F_sigmoid sq) (to_float mask_true) True default_epsilon = Inr d
            \<and> l = c + (1 - d)
       else \<exists>c sm oh d. criterion_long n mask_pred mask_true = Inr c
            \<and> F_softmax_1 mask_pred = Inr sm
            \<and> one_hot_mask mask_true (n_classes n) = Inr oh
            \<and> multiclass_dice_coeff sm oh True default_epsilon = Inr d
            \<and> l = c + (1 - d)))"
proof (intro conjI impI)
  assume s: "shape input = shape target"
  then show "dice_loss input target False
        = Inr (1 - dice_value (data input) (data target) default_epsilon)"
    by (simp add: dice_loss_def dice_coeff_def dice_same_shape_def)
  from s show "dice_coeff input target True default_epsilon
        = Inr (dice_value (data input) (data target) default_epsilon)"
    by (simp add: dice_coeff_def dice_same_shape_def)
next
  assume a: "shape input = shape target \<and> 2 \<le> length (shape input)"
  then show "dice_loss input target True
        = Inr (1 - mean (map (\<lambda>k. dice_value (data (channel k input)) (data (channel k target))
                                   default_epsilon) [0..<n_channels input]))"
    by (auto simp: dice_loss_def multiclass_dice_coeff_def dice_same_shape_def)
  from a show "multiclass_dice_coeff input target True default_epsilon
        = Inr (mean (map (\<lambda>k. dice_value (data (channel k input)) (data (channel k target))
                               default_epsilon) [0..<n_channels input]))"
    by (auto simp: multiclass_dice_coeff_def dice_same_shape_def)
next
  assume "dice_coeff input target True default_epsilon = Inl e"
  then show "dice_loss input target False = Inl e"
    by (simp add: dice_loss_def)
next
  assume "multiclass_dice_coeff input target True default_epsilon = Inl e"
  then show "dice_loss input target True = Inl e"
    by (simp add: dice_loss_def)
next
  assume "batch_loss n mask_pred mask_true = Inr l"
  then show "if n_classes n = 1
       then \<exists>sq c d. squeeze_1 mask_pred = Inr sq
            \<and> criterion_float n sq (to_float mask_true) = Inr c
            \<and> dice_coeff (F_sigmoid sq) (to_float mask_true) True default_epsilon = Inr d
            \<and> l = c + (1 - d)
       else \<exists>c sm oh d. criterion_long n mask_pred mask_true = Inr c
            \<and> F_softmax_1 mask_pred = Inr sm
            \<and> one_hot_mask mask_true (n_classes n) = Inr oh
            \<and> multiclass_dice_coeff sm oh True default_epsilon = Inr d
            \<and> l = c + (1 - d)"
    by (rule batch_loss_parts)
qed

theorem dice_loss_is_one_minus_dice_witness:
  "dice_loss \<lparr>shape = [2, 2], data = [1, 1, 0, 0]\<rparr> \<lparr>shape = [2, 2], data = [1, 0, 0, 0]\<rparr> False
     = Inr (1 - 2000001 / 3000001)
   \<and> dice_loss \<lparr>shape = [2, 2], data = [1, 1, 0, 0]\<rparr> \<lparr>shape = [2, 1], data = [1, 0]\<rparr> False
     = Inl ShapeError
   \<and> (\<exists>d. multiclass_dice_coeff \<lparr>shape = [1, 2, 1], data = [1, 0]\<rparr>
            \<lparr>shape = [1, 2, 1], data = [1, 0]\<rparr> True default_epsilon = Inr d
        \<and> dice_loss \<lparr>shape = [1, 2, 1], data = [1, 0]\<rparr> \<lparr>shape = [1, 2, 1], data = [1, 0]\<rparr> True
            = Inr (1 - d))"
proof -
  let ?p = "\<lparr>shape = [2, 2], data = [1, 1, 0, 0::real]\<rparr>"
  let ?u = "\<lparr>shape = [2, 2], data = [1, 0, 0, 0::real]\<rparr>"
  let ?v = "\<lparr>shape = [2, 1], data = [1, 0::real]\<rparr>"
  let ?m = "\<lparr>shape = [1, 2, 1], data = [1, 0::real]\<rparr>"
  have a: "dice_loss ?p ?u False = Inr (1 - 2000001 / 3000001)"
    by (rule trans [OF dice_loss_is_one_minus_dice [of ?p ?u ShapeError example_net ?p
          "\<lparr>shape = [], data = []\<rparr>" 0, THEN conjunct1, THEN mp, THEN conjunct1]])
      (simp_all add: dice_value_def default_epsilon_def)
  have "dice_coeff ?p ?v True default_epsilon = Inl ShapeError"
    by (simp add: dice_coeff_def)
  then have b: "dice_loss ?p ?v False = Inl ShapeError"
    by (rule dice_loss_is_one_minus_dice [of ?p ?v ShapeError example_net ?p
          "\<lparr>shape = [], data = []\<rparr>" 0, THEN conjunct2, THEN conjunct2, THEN conjunct1, THEN mp])
  have c: "\<exists>d. multiclass_dice_coeff ?m ?m True default_epsilon = Inr d
        \<and> dice_loss ?m ?m True = Inr (1 - d)"
    using dice_loss_is_one_minus_dice [of ?m ?m ShapeError example_net ?p
          "\<lparr>shape = [], data = []\<rparr>" 0, THEN conjunct2, THEN conjunct1, THEN mp]
    by simp
  from a b c show ?thesis
    by (intro conjI)
qed

end
